theory Spec2Isabelle
  imports Complex_Main "HOL-Library.Char_ord" "HOL-Library.List_Lexorder" "HOL-Library.Log_Nat"
begin

section \<open>Frame extraction and frame sampling of the bilibili-analyzer skill\<close>

text \<open>
  A shallow embedding of \<^verbatim>\<open>scripts/extract_frames.py\<close> and
  \<^verbatim>\<open>scripts/analyze_frames.py\<close>. Both scripts are glue around an operating system:
  a file system and the external programs \<^verbatim>\<open>ffmpeg\<close> and \<^verbatim>\<open>ffprobe\<close>. Whatever the
  scripts do not decide themselves is a field of the record \<open>env\<close> below, a function on
  an arbitrary type \<open>'w\<close> of worlds, so every theorem holds for every behaviour of the
  operating system. Python exceptions are values: a function that can raise returns
  \<open>py_exception + 'a\<close>, with \<open>Inl\<close> for the exception.
\<close>

subsection \<open>Python values\<close>

datatype py_exception =
    ZeroDivisionError
  | IndexError
  | ValueError
  | OverflowError
  | OSError string

text \<open>
  A Python \<^verbatim>\<open>float\<close> is an IEEE 754 double. \<open>Finite x\<close> stands for the double whose
  value is the real number \<open>x\<close> (the two zeros are one value); which reals are doubles,
  and how the result of an operation is rounded to one, is defined with the division
  below.
\<close>

datatype pyfloat = Finite real | PosInf | NegInf | NaN

text \<open>The outcome of \<^verbatim>\<open>subprocess.run(cmd, capture_output=True, check=True)\<close>.\<close>

datatype proc_outcome =
    Completed string            \<comment> \<open>exit status 0; the captured standard output\<close>
  | CalledProcessError string   \<comment> \<open>non-zero exit status; the captured standard error\<close>
  | FileNotFoundError           \<comment> \<open>the program does not exist\<close>
  | OtherException string       \<comment> \<open>any other \<^verbatim>\<open>Exception\<close>; its \<^verbatim>\<open>str\<close>\<close>

subsection \<open>The operating system and the library functions, as parameters\<close>

record 'w env =
  run :: "string list \<Rightarrow> 'w \<Rightarrow> proc_outcome \<times> 'w"
    \<comment> \<open>\<^verbatim>\<open>subprocess.run\<close> of a command line; it may change the world (write files)\<close>
  makedirs :: "string \<Rightarrow> 'w \<Rightarrow> py_exception option \<times> 'w"
    \<comment> \<open>\<^verbatim>\<open>os.makedirs(d, exist_ok=True)\<close>; \<open>Some e\<close> when it raises \<open>e\<close>\<close>
  path_exists :: "string \<Rightarrow> 'w \<Rightarrow> bool"
    \<comment> \<open>\<^verbatim>\<open>os.path.exists\<close>, \<^verbatim>\<open>Path.exists\<close>\<close>
  listdir :: "string \<Rightarrow> 'w \<Rightarrow> string list"
    \<comment> \<open>the names of the entries of a directory, in any order; empty for a path that
        is no readable directory (\<^verbatim>\<open>Path.glob\<close> yields nothing there)\<close>
  path_str :: "string \<Rightarrow> string \<Rightarrow> string"
    \<comment> \<open>\<^verbatim>\<open>str(Path(d) / name)\<close>\<close>
  stat_size :: "string \<Rightarrow> 'w \<Rightarrow> nat option"
    \<comment> \<open>\<^verbatim>\<open>Path.stat().st_size\<close> of a path string; \<open>None\<close> when it raises\<close>
  read_bytes :: "string \<Rightarrow> 'w \<Rightarrow> string option"
    \<comment> \<open>\<^verbatim>\<open>open(p, 'rb').read()\<close>; \<open>None\<close> when opening or reading raises\<close>
  b64encode :: "string \<Rightarrow> string"
    \<comment> \<open>\<^verbatim>\<open>base64.b64encode(bytes).decode('utf-8')\<close>\<close>
  expanduser :: "string \<Rightarrow> string"
    \<comment> \<open>\<^verbatim>\<open>os.path.expanduser\<close>\<close>
  float_of_str :: "string \<Rightarrow> pyfloat option"
    \<comment> \<open>\<^verbatim>\<open>float(s)\<close>; \<open>None\<close> when it raises \<^verbatim>\<open>ValueError\<close>\<close>
  str_of_float :: "pyfloat \<Rightarrow> string"
    \<comment> \<open>the formatting of a float in an f-string\<close>
  int_of_unicode :: "string \<Rightarrow> int option"
    \<comment> \<open>\<^verbatim>\<open>int(s)\<close> for a string with a character outside ASCII; \<open>None\<close> when
        it raises \<^verbatim>\<open>ValueError\<close>\<close>

subsection \<open>analyze\_frames.py\<close>

text \<open>
  \<^verbatim>\<open>Path.glob('frame_*.jpg')\<close> and \<^verbatim>\<open>Path.glob('scene_*.jpg')\<close>: the entries of the
  directory whose name starts with the prefix and ends with the suffix, the two not
  overlapping. \<^verbatim>\<open>sorted\<close> orders the paths of one directory by their names, code point
  by code point.
\<close>

definition fnmatch :: "string \<Rightarrow> string \<Rightarrow> string \<Rightarrow> bool" where
  "fnmatch pre suf n \<longleftrightarrow>
     length pre + length suf \<le> length n \<and>
     take (length pre) n = pre \<and>
     drop (length n - length suf) n = suf"

definition glob :: "'w env \<Rightarrow> string \<Rightarrow> string \<Rightarrow> string \<Rightarrow> 'w \<Rightarrow> string list" where
  "glob env d pre suf w = filter (fnmatch pre suf) (listdir env d w)"

text \<open>\<^verbatim>\<open>xs[i]\<close> on a list: an index below zero is taken from the end of the list, and an
  index outside the list raises \<^verbatim>\<open>IndexError\<close>.\<close>

definition getitem :: "'a list \<Rightarrow> int \<Rightarrow> py_exception + 'a" where
  "getitem xs i =
     (if 0 \<le> i \<and> i < int (length xs) then Inr (xs ! nat i)
      else if i < 0 \<and> - int (length xs) \<le> i then Inr (xs ! nat (int (length xs) + i))
      else Inl IndexError)"

text \<open>A list comprehension whose element expression can raise stops at the first exception.\<close>

fun comprehension :: "('a \<Rightarrow> py_exception + 'b) \<Rightarrow> 'a list \<Rightarrow> py_exception + 'b list" where
  "comprehension f [] = Inr []"
| "comprehension f (x # xs) =
     (case f x of
        Inl e \<Rightarrow> Inl e
      | Inr y \<Rightarrow> (case comprehension f xs of Inl e \<Rightarrow> Inl e | Inr ys \<Rightarrow> Inr (y # ys)))"

text \<open>\<^verbatim>\<open>range(k)\<close> is empty for \<open>k \<le> 0\<close>.\<close>

definition py_range :: "int \<Rightarrow> int list" where
  "py_range k = map int [0 ..< nat k]"

text \<open>
  Lines 47 to 53 of \<^verbatim>\<open>analyze_frames\<close>, the choice of the frames to read. Python's
  \<^verbatim>\<open>//\<close> on integers is floor division, as \<open>div\<close> on \<open>int\<close> is, but raises for a zero
  divisor.
\<close>

definition selected_frames :: "'a list \<Rightarrow> int \<Rightarrow> py_exception + 'a list" where
  "selected_frames frame_files sample_count =
     (let total_frames = int (length frame_files) in
      if total_frames \<le> sample_count then Inr frame_files
      else if sample_count = 0 then Inl ZeroDivisionError
      else
        let step = total_frames div sample_count
        in comprehension (\<lambda>i. getitem frame_files (i * step)) (py_range sample_count))"

record frame_info =
  path :: string
  name :: string
  st_size :: nat
  base64 :: string

definition encode_image :: "'w env \<Rightarrow> string \<Rightarrow> 'w \<Rightarrow> string option" where
  "encode_image env image_path w = map_option (b64encode env) (read_bytes env image_path w)"

text \<open>The body of the \<^verbatim>\<open>try\<close> in the loop; \<open>None\<close> when it raises.\<close>

definition read_frame :: "'w env \<Rightarrow> string \<Rightarrow> string \<Rightarrow> 'w \<Rightarrow> frame_info option" where
  "read_frame env frames_dir frame w =
     (let p = path_str env frames_dir frame in
      case stat_size env p w of
        None \<Rightarrow> None
      | Some sz \<Rightarrow>
          (case encode_image env p w of
             None \<Rightarrow> None
           | Some b \<Rightarrow> Some \<lparr>path = p, name = frame, st_size = sz, base64 = b\<rparr>))"

text \<open>The loop: a frame that cannot be read gets a warning and is skipped.\<close>

fun frames_data :: "'w env \<Rightarrow> string \<Rightarrow> string list \<Rightarrow> 'w \<Rightarrow> frame_info list" where
  "frames_data env frames_dir [] w = []"
| "frames_data env frames_dir (f # fs) w =
     (case read_frame env frames_dir f w of
        Some info \<Rightarrow> info # frames_data env frames_dir fs w
      | None \<Rightarrow> frames_data env frames_dir fs w)"

text \<open>
  The dictionary \<^verbatim>\<open>analyze_frames\<close> returns: \<open>Analysis\<close> is the one with
  \<^verbatim>\<open>'success': True\<close> (keys \<^verbatim>\<open>total_frames\<close>, \<^verbatim>\<open>analyzed_frames\<close> and \<^verbatim>\<open>frames\<close>, each
  frame with its name, path, size and \<^verbatim>\<open>base64_length\<close>; the constant \<^verbatim>\<open>note\<close> is left
  out), \<open>Analysis_error\<close> the one with the keys \<^verbatim>\<open>error\<close> and \<^verbatim>\<open>details\<close>.
\<close>

datatype analysis =
    Analysis nat nat "(string \<times> string \<times> nat \<times> nat) list"
  | Analysis_error string string

definition analyze_frames :: "'w env \<Rightarrow> string \<Rightarrow> int \<Rightarrow> 'w \<Rightarrow> py_exception + analysis" where
  "analyze_frames env frames_dir sample_count w =
     (if \<not> path_exists env frames_dir w then
        Inr (Analysis_error ''Frames directory not found''
               (''Directory '' @ frames_dir @ '' does not exist''))
      else
        let frame_files = sort (glob env frames_dir ''frame_'' ''.jpg'' w) in
        if frame_files = [] then
          Inr (Analysis_error ''No frames found'' (''No frame_*.jpg files in '' @ frames_dir))
        else
          case selected_frames frame_files sample_count of
            Inl e \<Rightarrow> Inl e
          | Inr selected \<Rightarrow>
              let fd = frames_data env frames_dir selected w in
              if fd = [] then
                Inr (Analysis_error ''Failed to process frames'' ''Could not read any frame files'')
              else
                Inr (Analysis (length frame_files) (length fd)
                       (map (\<lambda>f. (name f, path f, st_size f, length (base64 f))) fd)))"

subsection \<open>extract\_frames.py\<close>

text \<open>
  The state the script runs in: the world, and a record of which of the three
  functions \<^verbatim>\<open>extract_frames_scene\<close>, \<^verbatim>\<open>get_video_duration\<close> and
  \<^verbatim>\<open>extract_frames_interval\<close> have been called so far, with their arguments, in the
  order of the calls. The record is not in the source; each function appends its own
  call when it is entered, so that "is never invoked" can be stated.
\<close>

datatype call =
    Scene_call string string pyfloat
  | Duration_call string
  | Interval_call string string int

record 'w state =
  world :: 'w
  calls :: "call list"

text \<open>
  The dictionaries the extractors and \<^verbatim>\<open>main\<close> build. \<open>Success m p c fs\<close> is
  \<^verbatim>\<open>{'success': True, 'method': m, p, 'frame_count': c, 'frames': fs}\<close>, where \<open>p\<close> is
  the entry \<^verbatim>\<open>'interval'\<close> or \<^verbatim>\<open>'threshold'\<close>; \<open>Failure e (k, v)\<close> is
  \<^verbatim>\<open>{'error': e, k: v}\<close>.
\<close>

datatype param = Interval int | Threshold pyfloat

datatype result =
    Success string param nat "string list"
  | Failure string "string \<times> string"

text \<open>\<^verbatim>\<open>str\<close> of an integer, as the f-string \<^verbatim>\<open>f'fps=1/{interval}'\<close> formats it.\<close>

fun str_nat :: "nat \<Rightarrow> string" where
  "str_nat n =
     (if n < 10 then [''0123456789'' ! n]
      else str_nat (n div 10) @ [''0123456789'' ! (n mod 10)])"

declare str_nat.simps [simp del]

definition str_int :: "int \<Rightarrow> string" where
  "str_int i = (if i < 0 then CHR ''-'' # str_nat (nat (- i)) else str_nat (nat i))"

text \<open>\<^verbatim>\<open>os.path.join\<close> of POSIX, for two components.\<close>

definition os_path_join :: "string \<Rightarrow> string \<Rightarrow> string" where
  "os_path_join a b =
     (if take 1 b = ''/'' then b
      else if a = [] \<or> last a = CHR ''/'' then a @ b
      else a @ ''/'' @ b)"

text \<open>\<^verbatim>\<open>s.replace(old, new)\<close> for a non-empty \<open>old\<close>: every occurrence, from the left.\<close>

function replace :: "string \<Rightarrow> string \<Rightarrow> string \<Rightarrow> string" where
  "replace [] old new = []"
| "replace (c # cs) old new =
     (if old \<noteq> [] \<and> take (length old) (c # cs) = old
      then new @ replace (drop (length old) (c # cs)) old new
      else c # replace cs old new)"
  by pat_completeness auto
termination
  by (relation "measure (\<lambda>(s, old, new). length s)") auto

text \<open>
  \<^verbatim>\<open>get_ffmpeg_path\<close>: the first candidate whose \<^verbatim>\<open>-version\<close> run completes (the bare
  \<^verbatim>\<open>except\<close> skips a candidate on any exception), else the bare command name.
\<close>

fun get_ffmpeg_path_loop :: "'w env \<Rightarrow> string list \<Rightarrow> 'w \<Rightarrow> string \<times> 'w" where
  "get_ffmpeg_path_loop env [] w = (''ffmpeg'', w)"
| "get_ffmpeg_path_loop env (p # ps) w =
     (case run env [p, ''-version''] w of
        (Completed out, w') \<Rightarrow> (p, w')
      | (_, w') \<Rightarrow> get_ffmpeg_path_loop env ps w')"

definition get_ffmpeg_path :: "'w env \<Rightarrow> 'w \<Rightarrow> string \<times> 'w" where
  "get_ffmpeg_path env w =
     get_ffmpeg_path_loop env
       [''ffmpeg'', expanduser env ''~/bin/ffmpeg'', ''/usr/local/bin/ffmpeg'',
        ''/opt/homebrew/bin/ffmpeg''] w"

text \<open>
  The \<^verbatim>\<open>try\<close> block the two extractors share, with its three \<^verbatim>\<open>except\<close> clauses: run
  the command, then list the frames written. \<open>pre\<close> is the prefix of the file names,
  \<open>m\<close> and \<open>p\<close> the method and parameter recorded in the result.
\<close>

definition run_and_collect ::
    "'w env \<Rightarrow> string list \<Rightarrow> string \<Rightarrow> string \<Rightarrow> string \<Rightarrow> param \<Rightarrow> 'w \<Rightarrow> result \<times> 'w" where
  "run_and_collect env cmd output_dir pre m p w =
     (case run env cmd w of
        (Completed out, w') \<Rightarrow>
          (let frames = sort (glob env output_dir pre ''.jpg'' w');
               frame_paths = map (path_str env output_dir) frames
           in (Success m p (length frame_paths) frame_paths, w'))
      | (CalledProcessError err, w') \<Rightarrow> (Failure ''Frame extraction failed'' (''details'', err), w')
      | (FileNotFoundError, w') \<Rightarrow> (Failure ''ffmpeg not found'' (''details'', ''Please install ffmpeg''), w')
      | (OtherException msg, w') \<Rightarrow> (Failure ''Unexpected error'' (''details'', msg), w'))"

definition extract_frames_interval ::
    "'w env \<Rightarrow> string \<Rightarrow> string \<Rightarrow> int \<Rightarrow> 'w state \<Rightarrow> (py_exception + result) \<times> 'w state" where
  "extract_frames_interval env video_path output_dir interval s =
     (let cs = calls s @ [Interval_call video_path output_dir interval] in
      case makedirs env output_dir (world s) of
        (Some e, w1) \<Rightarrow> (Inl e, \<lparr>world = w1, calls = cs\<rparr>)
      | (None, w1) \<Rightarrow>
          (let output_pattern = os_path_join output_dir ''frame_%04d.jpg'';
               (ffmpeg, w2) = get_ffmpeg_path env w1;
               cmd = [ffmpeg, ''-i'', video_path, ''-vf'', ''fps=1/'' @ str_int interval,
                      ''-q:v'', ''2'', output_pattern, ''-y''];
               (r, w3) = run_and_collect env cmd output_dir ''frame_'' ''interval''
                           (Interval interval) w2
           in (Inr r, \<lparr>world = w3, calls = cs\<rparr>)))"

definition extract_frames_scene ::
    "'w env \<Rightarrow> string \<Rightarrow> string \<Rightarrow> pyfloat \<Rightarrow> 'w state \<Rightarrow> (py_exception + result) \<times> 'w state" where
  "extract_frames_scene env video_path output_dir threshold s =
     (let cs = calls s @ [Scene_call video_path output_dir threshold] in
      case makedirs env output_dir (world s) of
        (Some e, w1) \<Rightarrow> (Inl e, \<lparr>world = w1, calls = cs\<rparr>)
      | (None, w1) \<Rightarrow>
          (let output_pattern = os_path_join output_dir ''scene_%04d.jpg'';
               (ffmpeg, w2) = get_ffmpeg_path env w1;
               cmd = [ffmpeg, ''-i'', video_path,
                      ''-vf'', ''select=gt(scene'' @ [CHR 0x5C] @ '','' @ str_of_float env threshold @ '')'',
                      ''-vsync'', ''vfr'', ''-q:v'', ''2'', output_pattern, ''-y''];
               (r, w3) = run_and_collect env cmd output_dir ''scene_'' ''scene_detection''
                           (Threshold threshold) w2
           in (Inr r, \<lparr>world = w3, calls = cs\<rparr>)))"

text \<open>
  \<^verbatim>\<open>s.strip()\<close> and \<^verbatim>\<open>int(s)\<close> on ASCII strings. The white space of both is the
  characters 9 to 13 and the blank (\<^verbatim>\<open>strip\<close> also removes 28 to 31); \<^verbatim>\<open>int\<close> reads
  an optional sign and decimal digits, single underscores allowed between digits.
\<close>

definition isspace :: "char \<Rightarrow> bool" where
  "isspace c \<longleftrightarrow> (let n = (of_char c :: nat) in (9 \<le> n \<and> n \<le> 13) \<or> (28 \<le> n \<and> n \<le> 32))"

definition strip :: "string \<Rightarrow> string" where
  "strip s = rev (dropWhile isspace (rev (dropWhile isspace s)))"

definition int_space :: "char \<Rightarrow> bool" where
  "int_space c \<longleftrightarrow> (let n = (of_char c :: nat) in (9 \<le> n \<and> n \<le> 13) \<or> n = 32)"

definition isdigit :: "char \<Rightarrow> bool" where
  "isdigit c \<longleftrightarrow> (let n = (of_char c :: nat) in 48 \<le> n \<and> n \<le> 57)"

definition digit_value :: "char \<Rightarrow> nat" where
  "digit_value c = of_char c - 48"

fun int_digits :: "nat \<Rightarrow> string \<Rightarrow> nat option" where
  "int_digits acc [] = Some acc"
| "int_digits acc [c] = (if isdigit c then Some (10 * acc + digit_value c) else None)"
| "int_digits acc (c # d # ds) =
     (if isdigit c then int_digits (10 * acc + digit_value c) (d # ds)
      else if c = CHR ''_'' \<and> isdigit d then int_digits (10 * acc + digit_value d) ds
      else None)"

definition int_unsigned :: "string \<Rightarrow> nat option" where
  "int_unsigned s =
     (case s of [] \<Rightarrow> None | c # cs \<Rightarrow> if isdigit c then int_digits (digit_value c) cs else None)"

definition int_of_ascii :: "string \<Rightarrow> int option" where
  "int_of_ascii s =
     (let t = rev (dropWhile int_space (rev (dropWhile int_space s))) in
      case t of
        [] \<Rightarrow> None
      | c # cs \<Rightarrow>
          if c = CHR ''-'' then map_option (\<lambda>n. - int n) (int_unsigned cs)
          else if c = CHR ''+'' then map_option int (int_unsigned cs)
          else map_option int (int_unsigned t))"

definition py_int :: "'w env \<Rightarrow> string \<Rightarrow> int option" where
  "py_int env s =
     (if \<forall>c \<in> set s. (of_char c :: nat) < 128 then int_of_ascii s else int_of_unicode env s)"

text \<open>
  \<^verbatim>\<open>get_video_duration\<close>: the bare \<^verbatim>\<open>except\<close> turns every failure of the run and of
  \<^verbatim>\<open>float\<close> into \<^verbatim>\<open>None\<close>.
\<close>

definition get_video_duration ::
    "'w env \<Rightarrow> string \<Rightarrow> 'w state \<Rightarrow> pyfloat option \<times> 'w state" where
  "get_video_duration env video_path s =
     (let cs = calls s @ [Duration_call video_path];
          (ffmpeg, w1) = get_ffmpeg_path env (world s);
          ffprobe = replace ffmpeg ''ffmpeg'' ''ffprobe'';
          cmd = [ffprobe, ''-v'', ''error'', ''-show_entries'', ''format=duration'',
                 ''-of'', ''default=noprint_wrappers=1:nokey=1'', video_path]
      in case run env cmd w1 of
           (Completed out, w2) \<Rightarrow> (float_of_str env (strip out), \<lparr>world = w2, calls = cs\<rparr>)
         | (_, w2) \<Rightarrow> (None, \<lparr>world = w2, calls = cs\<rparr>))"

text \<open>
  What \<^verbatim>\<open>main\<close> ends with: \<open>Exit0 r\<close> prints \<open>r\<close> on standard output and the exit
  status is 0; \<open>Exit1 r\<close> prints \<open>r\<close> on standard error and calls \<^verbatim>\<open>sys.exit(1)\<close>;
  \<open>Uncaught e\<close> is an exception that no handler of the script catches. The progress
  message on standard error is left out.
\<close>

datatype exit = Exit0 result | Exit1 result | Uncaught py_exception

text \<open>\<^verbatim>\<open>result.get('frame_count', d)\<close> and \<^verbatim>\<open>'error' in result\<close>.\<close>

fun get_frame_count :: "result \<Rightarrow> nat \<Rightarrow> nat" where
  "get_frame_count (Success m p c fs) d = c"
| "get_frame_count (Failure e kv) d = d"

fun has_error :: "result \<Rightarrow> bool" where
  "has_error (Success m p c fs) = False"
| "has_error (Failure e kv) = True"

text \<open>
  Rounding to a double, to nearest with ties to even. \<open>binary_exponent x\<close> is the
  \<open>e\<close> with \<open>2 powi e \<le> \<bar>x\<bar> < 2 powi (e + 1)\<close>. The doubles of that magnitude are the
  multiples of \<open>ulp x\<close>, 52 binary places further down, and of \<open>2 powi (- 1074)\<close> in
  the subnormal range. A result whose binary exponent is 1024 or more, that is, whose
  magnitude is \<open>2 ^ 1024\<close> or more, is an infinity.
\<close>

definition binary_exponent :: "real \<Rightarrow> int" where
  "binary_exponent x =
     (if 1 \<le> \<bar>x\<bar> then bitlen \<lfloor>\<bar>x\<bar>\<rfloor> - 1 else - bitlen (\<lceil>1 / \<bar>x\<bar>\<rceil> - 1))"

definition ulp :: "real \<Rightarrow> real" where
  "ulp x = 2 powi (max (binary_exponent x - 52) (- 1074))"

definition round_half_even :: "real \<Rightarrow> int" where
  "round_half_even r =
     (let f = \<lfloor>r\<rfloor> in
      if r - of_int f < 1 / 2 then f
      else if 1 / 2 < r - of_int f then f + 1
      else if even f then f else f + 1)"

definition round_double :: "real \<Rightarrow> pyfloat" where
  "round_double x =
     (if x = 0 then Finite 0
      else
        let r = of_int (round_half_even (x / ulp x)) * ulp x in
        if 1024 \<le> binary_exponent r then (if 0 < r then PosInf else NegInf) else Finite r)"

text \<open>The reals that are doubles: those that rounding leaves as they are.\<close>

definition is_double :: "real \<Rightarrow> bool" where
  "is_double x \<longleftrightarrow> round_double x = Finite x"

text \<open>
  The truth value of a float (\<^verbatim>\<open>if duration:\<close>), the division of a float by a finite
  non-zero double \<open>y\<close> (the exact quotient, rounded), and \<^verbatim>\<open>int\<close> of a float, which
  truncates towards zero and raises on an infinity or a NaN.
\<close>

fun truthy :: "pyfloat \<Rightarrow> bool" where
  "truthy (Finite x) = (x \<noteq> 0)"
| "truthy PosInf = True"
| "truthy NegInf = True"
| "truthy NaN = True"

fun float_div :: "pyfloat \<Rightarrow> real \<Rightarrow> pyfloat" where
  "float_div (Finite x) y = round_double (x / y)"
| "float_div PosInf y = (if 0 < y then PosInf else NegInf)"
| "float_div NegInf y = (if 0 < y then NegInf else PosInf)"
| "float_div NaN y = NaN"

fun int_of_float :: "pyfloat \<Rightarrow> py_exception + int" where
  "int_of_float (Finite x) = Inr (if 0 \<le> x then \<lfloor>x\<rfloor> else \<lceil>x\<rceil>)"
| "int_of_float PosInf = Inl OverflowError"
| "int_of_float NegInf = Inl OverflowError"
| "int_of_float NaN = Inl ValueError"

text \<open>The last lines of \<^verbatim>\<open>main\<close>, from \<^verbatim>\<open>if 'error' in result\<close> on.\<close>

fun report :: "(py_exception + result) \<times> 'w state \<Rightarrow> exit \<times> 'w state" where
  "report (Inl e, s) = (Uncaught e, s)"
| "report (Inr r, s) = (if has_error r then Exit1 r else Exit0 r, s)"

definition invalid_interval :: result where
  "invalid_interval =
     Failure ''Invalid interval''
       (''details'', ''Interval must be a number or '' @ [CHR 0x22] @ ''auto'' @ [CHR 0x22])"

text \<open>
  \<^verbatim>\<open>main\<close>; \<open>argv\<close> is \<^verbatim>\<open>sys.argv\<close>, the script's name first. In the branch of an
  explicit interval the \<^verbatim>\<open>try\<close> encloses the call of the extractor as well, so a
  \<^verbatim>\<open>ValueError\<close> that leaves the extractor is reported as an invalid interval too.
\<close>

definition main :: "'w env \<Rightarrow> string list \<Rightarrow> 'w state \<Rightarrow> exit \<times> 'w state" where
  "main env argv s =
     (if length argv < 3 then
        (Exit1 (Failure ''Missing arguments''
                  (''usage'', ''python extract_frames.py <video_path> <output_dir> [interval|auto]'')), s)
      else
        let video_path = argv ! 1;
            output_dir = argv ! 2;
            mode = (if length argv > 3 then argv ! 3 else ''auto'')
        in
        if \<not> path_exists env video_path (world s) then
          (Exit1 (Failure ''Video file not found'' (''path'', video_path)), s)
        else if mode = ''auto'' then
          (case extract_frames_scene env video_path output_dir (Finite (3 / 10)) s of
             (Inl e, s1) \<Rightarrow> (Uncaught e, s1)
           | (Inr result, s1) \<Rightarrow>
               if get_frame_count result 0 > 50 \<or> get_frame_count result 0 < 5 then
                 (case get_video_duration env video_path s1 of
                    (None, s2) \<Rightarrow> report (Inr result, s2)
                  | (Some duration, s2) \<Rightarrow>
                      if truthy duration then
                        (case int_of_float (float_div duration 30) of
                           Inl e \<Rightarrow> (Uncaught e, s2)
                         | Inr q \<Rightarrow>
                             report (extract_frames_interval env video_path output_dir (max 10 q) s2))
                      else report (Inr result, s2))
               else report (Inr result, s1))
        else
          (case py_int env mode of
             None \<Rightarrow> (Exit1 invalid_interval, s)
           | Some interval \<Rightarrow>
               (case extract_frames_interval env video_path output_dir interval s of
                  (Inl ValueError, s1) \<Rightarrow> (Exit1 invalid_interval, s1)
                | (r, s1) \<Rightarrow> report (r, s1))))"

subsection \<open>A concrete machine\<close>

text \<open>
  An operating system to run the scripts on at concrete inputs. Its world is the list
  of the names in the one directory it has. \<^verbatim>\<open>ffmpeg\<close> is found on the search path;
  \<open>scene\<close>, \<open>probe\<close> and \<open>interval\<close> are the outcomes of the scene-detection run, of
  \<^verbatim>\<open>ffprobe\<close> and of the fixed-rate run; a run that completes writes its files into the
  directory. The paths in \<open>unreadable\<close> cannot be read, \<open>missing\<close> are the paths that do
  not exist.
\<close>

definition machine ::
    "proc_outcome \<Rightarrow> string list \<Rightarrow> proc_outcome \<Rightarrow> proc_outcome \<Rightarrow> string list \<Rightarrow>
     string list \<Rightarrow> string list \<Rightarrow> (string list) env" where
  "machine scene scene_files probe interval interval_files unreadable missing =
     \<lparr>run = (\<lambda>cmd w.
         if length cmd = 2 then
           (if cmd = [''ffmpeg'', ''-version''] then (Completed ''ffmpeg version 6.0'', w)
            else (FileNotFoundError, w))
         else if hd cmd = ''ffprobe'' then (probe, w)
         else if ''-vsync'' \<in> set cmd then
           (scene, case scene of Completed out \<Rightarrow> w @ scene_files | _ \<Rightarrow> w)
         else (interval, case interval of Completed out \<Rightarrow> w @ interval_files | _ \<Rightarrow> w)),
      makedirs = (\<lambda>d w. (None, w)),
      path_exists = (\<lambda>p w. p \<notin> set missing),
      listdir = (\<lambda>d w. if d \<in> set missing then [] else w),
      path_str = (\<lambda>d n. d @ ''/'' @ n),
      stat_size = (\<lambda>p w. if p \<in> set unreadable then None else Some 2048),
      read_bytes = (\<lambda>p w. if p \<in> set unreadable then None else Some ''JFIF''),
      b64encode = (\<lambda>b. replicate (4 * ((length b + 2) div 3)) CHR ''A''),
      expanduser = (\<lambda>p. ''/root'' @ drop 1 p),
      float_of_str = (\<lambda>t. if t = ''900.000000'' then Some (Finite 900)
                          else if t = ''0.000000'' then Some (Finite 0) else None),
      str_of_float = (\<lambda>f. ''0.3''),
      int_of_unicode = (\<lambda>t. None)\<rparr>"

text \<open>The names \<^verbatim>\<open>pre0000.jpg\<close>, \<^verbatim>\<open>pre0001.jpg\<close>, ... that \<^verbatim>\<open>%04d\<close> produces, from \<open>i\<close> up to \<open>j - 1\<close>.\<close>

definition numbered :: "string \<Rightarrow> nat \<Rightarrow> nat \<Rightarrow> string list" where
  "numbered pre i j =
     map (\<lambda>n. pre @ replicate (4 - length (str_nat n)) CHR ''0'' @ str_nat n @ ''.jpg'') [i ..< j]"

definition idle :: "(string list) state" where
  "idle = \<lparr>world = [], calls = []\<rparr>"

text \<open>A machine for the sampler, and a directory of seventeen frames among other files.\<close>

definition desk :: "string list env" where
  "desk = machine (Completed []) [] (Completed []) (Completed []) []
            [''frames/frame_0001.jpg'', ''dark/frame_0000.jpg'', ''dark/frame_0001.jpg''] [''missing'']"

definition shelf :: "string list" where
  "shelf = rev (numbered ''frame_'' 0 17) @ [''scene_0001.jpg'', ''frame_jpg'', ''notes.txt'']"

text \<open>
  Machines for the extraction script. \<open>probed t\<close> is an \<^verbatim>\<open>ffprobe\<close> run that prints the
  line \<open>t\<close>. On \<open>busy_video\<close> scene detection writes 80 frames of a video of 900
  seconds, on \<open>calm_video\<close> it writes 12; \<open>no_ffprobe\<close> has no \<^verbatim>\<open>ffprobe\<close>;
  \<open>zero_duration\<close> has a video whose duration is reported as 0; on \<open>no_vsync\<close> the
  scene-detection command line is rejected while the fixed-rate one works, and
  \<open>no_tools\<close> has no \<^verbatim>\<open>ffprobe\<close> either; on \<open>still_video\<close> both runs complete
  without writing a file; \<open>strict_rate\<close> rejects the frame rate it is given.
\<close>

definition probed :: "string \<Rightarrow> proc_outcome" where
  "probed t = Completed (t @ [CHR 0x0A])"

definition busy_video :: "string list env" where
  "busy_video = machine (Completed []) (numbered ''scene_'' 1 81) (probed ''900.000000'')
                  (Completed []) (numbered ''frame_'' 1 31) [] []"

definition calm_video :: "string list env" where
  "calm_video = machine (Completed []) (numbered ''scene_'' 1 13) (probed ''900.000000'')
                  (Completed []) (numbered ''frame_'' 1 31) [] []"

definition no_ffprobe :: "string list env" where
  "no_ffprobe = machine (Completed []) (numbered ''scene_'' 1 81) FileNotFoundError
                  (Completed []) (numbered ''frame_'' 1 31) [] []"

definition zero_duration :: "string list env" where
  "zero_duration = machine (Completed []) (numbered ''scene_'' 1 81) (probed ''0.000000'')
                  (Completed []) (numbered ''frame_'' 1 31) [] []"

definition no_vsync :: "string list env" where
  "no_vsync = machine (CalledProcessError ''Unrecognized option vsync'') [] (probed ''900.000000'')
                  (Completed []) (numbered ''frame_'' 1 31) [] []"

definition still_video :: "string list env" where
  "still_video = machine (Completed []) [] (probed ''N/A'')
                  (Completed []) [] [] []"

definition strict_rate :: "string list env" where
  "strict_rate = machine (Completed []) (numbered ''scene_'' 1 13) (probed ''900.000000'')
                  (CalledProcessError ''Unable to parse option value as video rate'') [] [] []"

definition cli :: "string list" where
  "cli = [''extract_frames.py'', ''video.mp4'', ''out'']"

definition no_tools :: "string list env" where
  "no_tools = machine (CalledProcessError ''Unrecognized option vsync'') [] FileNotFoundError
                  (Completed []) (numbered ''frame_'' 1 31) [] []"

section \<open>Properties of the frame sampler\<close>

subsection \<open>Auxiliary facts\<close>

lemma comprehension_map:
  "(\<And>x. x \<in> set xs \<Longrightarrow> f x = Inr (g x)) \<Longrightarrow> comprehension f xs = Inr (map g xs)"
  by (induction xs) simp_all

lemma getitem_nat: "i < length xs \<Longrightarrow> getitem xs (int i) = Inr (xs ! i)"
  by (simp add: getitem_def)

lemma step_bound:
  fixes i k n :: nat
  assumes "0 < k" "k < n" "i < k"
  shows "i * (n div k) < n"
proof -
  from assms have pos: "0 < n div k" by (simp add: div_greater_zero_iff)
  with \<open>i < k\<close> have "i * (n div k) < k * (n div k)" by simp
  also have "\<dots> \<le> n" by simp
  finally show ?thesis .
qed

lemma selected_frames_all:
  "int (length xs) \<le> k \<Longrightarrow> selected_frames xs k = Inr xs"
  by (simp add: selected_frames_def)

lemma selected_frames_step:
  assumes "0 < k" "k < int (length xs)"
  shows "selected_frames xs k = Inr (map (\<lambda>i. xs ! (i * (length xs div nat k))) [0 ..< nat k])"
proof -
  let ?n = "length xs"
  let ?s = "?n div nat k"
  from assms have k: "0 < nat k" "nat k < ?n" by simp_all
  have step: "int ?n div k = int ?s" using assms by (simp add: zdiv_int)
  have "comprehension (\<lambda>i. getitem xs (i * int ?s)) (py_range k)
        = Inr (map (\<lambda>i. xs ! (nat i * ?s)) (py_range k))"
  proof (rule comprehension_map)
    fix x assume "x \<in> set (py_range k)"
    then obtain i where i: "x = int i" "i < nat k" by (auto simp: py_range_def)
    with k have "i * ?s < ?n" by (simp add: step_bound)
    then have "getitem xs (int (i * ?s)) = Inr (xs ! (i * ?s))" by (rule getitem_nat)
    with i show "getitem xs (x * int ?s) = Inr (xs ! (nat x * ?s))" by simp
  qed
  also have "map (\<lambda>i. xs ! (nat i * ?s)) (py_range k) = map (\<lambda>i. xs ! (i * ?s)) [0 ..< nat k]"
    by (simp add: py_range_def comp_def)
  finally show ?thesis using assms by (simp add: selected_frames_def step Let_def)
qed

lemma selected_frames_zero:
  "xs \<noteq> [] \<Longrightarrow> selected_frames xs 0 = Inl ZeroDivisionError"
  by (simp add: selected_frames_def)

lemma strict_steps:
  fixes s :: nat
  shows "0 < s \<Longrightarrow> sorted_wrt (<) (map (\<lambda>i. i * s) [0 ..< m])"
  by (simp add: sorted_wrt_map sorted_wrt_iff_nth_less)

lemma frames_data_map_filter:
  "frames_data env d fs w = List.map_filter (\<lambda>f. read_frame env d f w) fs"
  by (induction fs) (simp_all add: List.map_filter_simps split: option.split)

lemma read_frame_name: "read_frame env d f w = Some i \<Longrightarrow> name i = f"
  by (auto simp: read_frame_def Let_def split: option.splits)

lemma frames_data_empty:
  "frames_data env d fs w = [] \<longleftrightarrow> (\<forall>f \<in> set fs. read_frame env d f w = None)"
  by (induction fs) (auto split: option.splits)

lemma frames_data_names:
  "map name (frames_data env d fs w) = filter (\<lambda>f. read_frame env d f w \<noteq> None) fs"
  by (induction fs) (auto split: option.splits dest: read_frame_name)

subsection \<open>The selection\<close>

text \<open>
  Claim C2. Let \<open>files\<close> be the \<^verbatim>\<open>frame_*.jpg\<close> files of the directory, sorted, \<open>n > 0\<close>
  their number and \<open>k > 0\<close> the sample count. The files are in lexicographic order and
  are exactly the matching entries. If \<open>n \<le> k\<close> all of them are selected, in that
  order. If \<open>n > k\<close> the selection is the files at the indices \<open>0, step, 2 step, ...,
  (k - 1) step\<close> with \<open>step = n div k\<close>: these are \<open>k\<close> indices, strictly increasing, all
  below \<open>n\<close>. For \<open>n = 17\<close> and \<open>k = 8\<close> the indices are 0, 2, 4, 6, 8, 10, 12, 14. When
  every file can be read, the frames \<^verbatim>\<open>analyze_frames\<close> returns are the selected ones,
  in the order of the selection.
\<close>

theorem sampler_selection:
  assumes "files = sort (glob env d ''frame_'' ''.jpg'' w)"
    and "n = length files" and "0 < n" and "0 < k"
  shows "sorted files \<and> set files = {f \<in> set (listdir env d w). fnmatch ''frame_'' ''.jpg'' f}
    \<and> (int n \<le> k \<longrightarrow> selected_frames files k = Inr files)
    \<and> (k < int n \<longrightarrow>
         (\<exists>idx. idx = map (\<lambda>i. i * (n div nat k)) [0 ..< nat k]
            \<and> selected_frames files k = Inr (map ((!) files) idx)
            \<and> length idx = nat k \<and> sorted_wrt (<) idx \<and> (\<forall>i \<in> set idx. i < n)))
    \<and> (n = 17 \<and> k = 8 \<longrightarrow>
         selected_frames files k = Inr (map ((!) files) [0, 2, 4, 6, 8, 10, 12, 14]))
    \<and> (path_exists env d w \<and> (\<forall>f \<in> set files. read_frame env d f w \<noteq> None) \<longrightarrow>
         (\<exists>sel fr. selected_frames files k = Inr sel
            \<and> analyze_frames env d k w = Inr (Analysis n (length sel) fr) \<and> map fst fr = sel))"
proof -
  have srt: "sorted files \<and> set files = {f \<in> set (listdir env d w). fnmatch ''frame_'' ''.jpg'' f}"
    using assms(1) by (auto simp: glob_def)
  have all: "int n \<le> k \<longrightarrow> selected_frames files k = Inr files"
    using assms(2) by (simp add: selected_frames_all)
  have stepped: "selected_frames files k = Inr (map ((!) files) (map (\<lambda>i. i * (n div nat k)) [0 ..< nat k]))"
    if "k < int n"
    using that assms(2,4) by (simp add: selected_frames_step comp_def)
  have some: "k < int n \<longrightarrow>
         (\<exists>idx. idx = map (\<lambda>i. i * (n div nat k)) [0 ..< nat k]
            \<and> selected_frames files k = Inr (map ((!) files) idx)
            \<and> length idx = nat k \<and> sorted_wrt (<) idx \<and> (\<forall>i \<in> set idx. i < n))"
  proof
    assume lt: "k < int n"
    with assms(4) have k: "0 < nat k" "nat k < n" by simp_all
    then have pos: "0 < n div nat k" by (simp add: div_greater_zero_iff)
    have "\<forall>i \<in> set (map (\<lambda>i. i * (n div nat k)) [0 ..< nat k]). i < n"
      using k by (auto simp: step_bound)
    with stepped[OF lt] pos show "\<exists>idx. idx = map (\<lambda>i. i * (n div nat k)) [0 ..< nat k]
            \<and> selected_frames files k = Inr (map ((!) files) idx)
            \<and> length idx = nat k \<and> sorted_wrt (<) idx \<and> (\<forall>i \<in> set idx. i < n)"
      by (simp add: strict_steps)
  qed
  have ex: "n = 17 \<and> k = 8 \<longrightarrow>
         selected_frames files k = Inr (map ((!) files) [0, 2, 4, 6, 8, 10, 12, 14])"
  proof
    assume nk: "n = 17 \<and> k = 8"
    then have "k < int n" by simp
    from stepped[OF this] nk show "selected_frames files k = Inr (map ((!) files) [0, 2, 4, 6, 8, 10, 12, 14])"
      by (simp add: upt_conv_Cons)
  qed
  have sel_ok: "\<exists>sel. selected_frames files k = Inr sel \<and> set sel \<subseteq> set files \<and> sel \<noteq> []"
  proof (cases "int n \<le> k")
    case True
    with all assms(2,3) show ?thesis by auto
  next
    case False
    then have lt: "k < int n" by simp
    with assms(4) have k: "0 < nat k" "nat k < n" by simp_all
    have "set (map ((!) files) (map (\<lambda>i. i * (n div nat k)) [0 ..< nat k])) \<subseteq> set files"
      using k assms(2) by (auto simp: step_bound)
    moreover have "map ((!) files) (map (\<lambda>i. i * (n div nat k)) [0 ..< nat k]) \<noteq> []"
      using k by simp
    ultimately show ?thesis using stepped[OF lt] by blast
  qed
  have whole: "path_exists env d w \<and> (\<forall>f \<in> set files. read_frame env d f w \<noteq> None) \<longrightarrow>
         (\<exists>sel fr. selected_frames files k = Inr sel
            \<and> analyze_frames env d k w = Inr (Analysis n (length sel) fr) \<and> map fst fr = sel)"
  proof
    assume a: "path_exists env d w \<and> (\<forall>f \<in> set files. read_frame env d f w \<noteq> None)"
    from sel_ok obtain sel where sel: "selected_frames files k = Inr sel" "set sel \<subseteq> set files" "sel \<noteq> []"
      by blast
    with a have rd: "\<forall>f \<in> set sel. read_frame env d f w \<noteq> None" by blast
    then have names: "map name (frames_data env d sel w) = sel"
      by (simp add: frames_data_names)
    then have len: "length (frames_data env d sel w) = length sel"
      by (metis length_map)
    from names sel(3) have ne: "frames_data env d sel w \<noteq> []" by auto
    from assms(2,3) have fne: "files \<noteq> []" by auto
    have "analyze_frames env d k w = Inr (Analysis n (length sel)
            (map (\<lambda>f. (name f, path f, st_size f, length (base64 f))) (frames_data env d sel w)))"
      using a sel(1) ne len fne assms(2)
      unfolding analyze_frames_def assms(1)[symmetric] by (simp add: Let_def)
    moreover have "map fst (map (\<lambda>f. (name f, path f, st_size f, length (base64 f))) (frames_data env d sel w)) = sel"
      using names by (simp add: comp_def)
    ultimately show "\<exists>sel fr. selected_frames files k = Inr sel
            \<and> analyze_frames env d k w = Inr (Analysis n (length sel) fr) \<and> map fst fr = sel"
      using sel(1) by blast
  qed
  from srt all some ex whole show ?thesis by blast
qed

theorem sampler_selection_witness:
  "sort (glob desk ''shots'' ''frame_'' ''.jpg'' shelf) = numbered ''frame_'' 0 17
   \<and> length (numbered ''frame_'' 0 17) = 17
   \<and> selected_frames (numbered ''frame_'' 0 17) 8 =
       Inr [''frame_0000.jpg'', ''frame_0002.jpg'', ''frame_0004.jpg'', ''frame_0006.jpg'',
            ''frame_0008.jpg'', ''frame_0010.jpg'', ''frame_0012.jpg'', ''frame_0014.jpg'']
   \<and> selected_frames (numbered ''frame_'' 0 17) 17 = Inr (numbered ''frame_'' 0 17)
   \<and> (\<exists>fr. analyze_frames desk ''shots'' 8 shelf = Inr (Analysis 17 8 fr)
          \<and> map fst fr =
              [''frame_0000.jpg'', ''frame_0002.jpg'', ''frame_0004.jpg'', ''frame_0006.jpg'',
               ''frame_0008.jpg'', ''frame_0010.jpg'', ''frame_0012.jpg'', ''frame_0014.jpg''])"
proof -
  have srt: "numbered ''frame_'' 0 17 = sort (glob desk ''shots'' ''frame_'' ''.jpg'' shelf)"
    by code_simp
  have len: "17 = length (numbered ''frame_'' 0 17)" by code_simp
  have lit: "numbered ''frame_'' 0 17 =
    [''frame_0000.jpg'', ''frame_0001.jpg'', ''frame_0002.jpg'', ''frame_0003.jpg'',
     ''frame_0004.jpg'', ''frame_0005.jpg'', ''frame_0006.jpg'', ''frame_0007.jpg'',
     ''frame_0008.jpg'', ''frame_0009.jpg'', ''frame_0010.jpg'', ''frame_0011.jpg'',
     ''frame_0012.jpg'', ''frame_0013.jpg'', ''frame_0014.jpg'', ''frame_0015.jpg'',
     ''frame_0016.jpg'']" by code_simp
  have n: "(0::nat) < 17" and k8: "(0::int) < 8" and k17: "(0::int) < 17" by simp_all
  from sampler_selection [OF srt len n k8]
  have "(17::nat) = 17 \<and> (8::int) = 8 \<longrightarrow>
          selected_frames (numbered ''frame_'' 0 17) 8 =
          Inr (map ((!) (numbered ''frame_'' 0 17)) [0, 2, 4, 6, 8, 10, 12, 14])"
    by blast
  then have s8: "selected_frames (numbered ''frame_'' 0 17) 8 =
       Inr [''frame_0000.jpg'', ''frame_0002.jpg'', ''frame_0004.jpg'', ''frame_0006.jpg'',
            ''frame_0008.jpg'', ''frame_0010.jpg'', ''frame_0012.jpg'', ''frame_0014.jpg'']"
    by (simp add: lit)
  from sampler_selection [OF srt len n k17]
  have "int 17 \<le> 17 \<longrightarrow> selected_frames (numbered ''frame_'' 0 17) 17 = Inr (numbered ''frame_'' 0 17)"
    by blast
  then have s17: "selected_frames (numbered ''frame_'' 0 17) 17 = Inr (numbered ''frame_'' 0 17)"
    by simp
  have rd: "path_exists desk ''shots'' shelf
            \<and> (\<forall>f \<in> set (numbered ''frame_'' 0 17). read_frame desk ''shots'' f shelf \<noteq> None)"
    by code_simp
  from sampler_selection [OF srt len n k8]
  have "path_exists desk ''shots'' shelf
          \<and> (\<forall>f \<in> set (numbered ''frame_'' 0 17). read_frame desk ''shots'' f shelf \<noteq> None) \<longrightarrow>
        (\<exists>sel fr. selected_frames (numbered ''frame_'' 0 17) 8 = Inr sel
           \<and> analyze_frames desk ''shots'' 8 shelf = Inr (Analysis 17 (length sel) fr)
           \<and> map fst fr = sel)"
    by blast
  with rd s8 have an: "\<exists>fr. analyze_frames desk ''shots'' 8 shelf = Inr (Analysis 17 8 fr)
          \<and> map fst fr =
              [''frame_0000.jpg'', ''frame_0002.jpg'', ''frame_0004.jpg'', ''frame_0006.jpg'',
               ''frame_0008.jpg'', ''frame_0010.jpg'', ''frame_0012.jpg'', ''frame_0014.jpg'']"
    by auto
  from srt len s8 s17 an show ?thesis by simp
qed

subsection \<open>The failures\<close>

text \<open>
  Claim C8. \<^verbatim>\<open>analyze_frames\<close> has three failure results, and each is returned under
  its own condition and under no other: "Frames directory not found" exactly when the
  directory does not exist; "No frames found" exactly when it exists and holds no
  \<^verbatim>\<open>frame_*.jpg\<close> file; "Failed to process frames" exactly when there are such files,
  the selection is made, and none of the selected frames can be read. When at least one
  selected frame can be read, the result is a success whose frames are the readable
  selected frames, in order: the unreadable ones are skipped.
\<close>

theorem sampler_failures:
  assumes "files = sort (glob env d ''frame_'' ''.jpg'' w)"
  shows "(analyze_frames env d k w =
            Inr (Analysis_error ''Frames directory not found'' (''Directory '' @ d @ '' does not exist''))
          \<longleftrightarrow> \<not> path_exists env d w)
    \<and> (analyze_frames env d k w =
            Inr (Analysis_error ''No frames found'' (''No frame_*.jpg files in '' @ d))
          \<longleftrightarrow> path_exists env d w \<and> files = [])
    \<and> (analyze_frames env d k w =
            Inr (Analysis_error ''Failed to process frames'' ''Could not read any frame files'')
          \<longleftrightarrow> path_exists env d w \<and> files \<noteq> [] \<and>
              (\<exists>sel. selected_frames files k = Inr sel \<and> (\<forall>f \<in> set sel. read_frame env d f w = None)))
    \<and> (path_exists env d w \<and> files \<noteq> [] \<and> selected_frames files k = Inr sel \<and>
          (\<exists>f \<in> set sel. read_frame env d f w \<noteq> None) \<longrightarrow>
          (\<exists>fr. analyze_frames env d k w =
                  Inr (Analysis (length files) (length (filter (\<lambda>f. read_frame env d f w \<noteq> None) sel)) fr)
             \<and> map fst fr = filter (\<lambda>f. read_frame env d f w \<noteq> None) sel))"
proof -
  note defs = analyze_frames_def assms[symmetric] Let_def
  have a: "analyze_frames env d k w =
            Inr (Analysis_error ''Frames directory not found'' (''Directory '' @ d @ '' does not exist''))
          \<longleftrightarrow> \<not> path_exists env d w"
    unfolding defs by (simp split: sum.split)
  have b: "analyze_frames env d k w =
            Inr (Analysis_error ''No frames found'' (''No frame_*.jpg files in '' @ d))
          \<longleftrightarrow> path_exists env d w \<and> files = []"
    unfolding defs by (simp split: sum.split)
  have c: "analyze_frames env d k w =
            Inr (Analysis_error ''Failed to process frames'' ''Could not read any frame files'')
          \<longleftrightarrow> path_exists env d w \<and> files \<noteq> [] \<and>
              (\<exists>sel. selected_frames files k = Inr sel \<and> (\<forall>f \<in> set sel. read_frame env d f w = None))"
    unfolding defs by (simp add: frames_data_empty split: sum.split)
  have e: "path_exists env d w \<and> files \<noteq> [] \<and> selected_frames files k = Inr sel \<and>
          (\<exists>f \<in> set sel. read_frame env d f w \<noteq> None) \<longrightarrow>
          (\<exists>fr. analyze_frames env d k w =
                  Inr (Analysis (length files) (length (filter (\<lambda>f. read_frame env d f w \<noteq> None) sel)) fr)
             \<and> map fst fr = filter (\<lambda>f. read_frame env d f w \<noteq> None) sel)"
  proof
    assume h: "path_exists env d w \<and> files \<noteq> [] \<and> selected_frames files k = Inr sel \<and>
          (\<exists>f \<in> set sel. read_frame env d f w \<noteq> None)"
    let ?fd = "frames_data env d sel w"
    let ?fr = "map (\<lambda>f. (name f, path f, st_size f, length (base64 f))) ?fd"
    have names: "map name ?fd = filter (\<lambda>f. read_frame env d f w \<noteq> None) sel"
      by (rule frames_data_names)
    then have len: "length ?fd = length (filter (\<lambda>f. read_frame env d f w \<noteq> None) sel)"
      by (metis length_map)
    from h have ne: "?fd \<noteq> []" by (simp add: frames_data_empty)
    have "analyze_frames env d k w = Inr (Analysis (length files) (length ?fd) ?fr)"
      using h ne unfolding defs by simp
    moreover have "map fst ?fr = filter (\<lambda>f. read_frame env d f w \<noteq> None) sel"
      using names by (simp add: comp_def)
    ultimately show "\<exists>fr. analyze_frames env d k w =
                  Inr (Analysis (length files) (length (filter (\<lambda>f. read_frame env d f w \<noteq> None) sel)) fr)
             \<and> map fst fr = filter (\<lambda>f. read_frame env d f w \<noteq> None) sel"
      using len by simp
  qed
  from a b c e show ?thesis by blast
qed

theorem sampler_failures_witness:
  "analyze_frames desk ''missing'' 8 shelf =
     Inr (Analysis_error ''Frames directory not found'' ''Directory missing does not exist'')
   \<and> analyze_frames desk ''frames'' 8 [''notes.txt''] =
     Inr (Analysis_error ''No frames found'' ''No frame_*.jpg files in frames'')
   \<and> analyze_frames desk ''dark'' 8 (numbered ''frame_'' 0 2) =
     Inr (Analysis_error ''Failed to process frames'' ''Could not read any frame files'')
   \<and> (\<exists>fr. analyze_frames desk ''frames'' 8 (numbered ''frame_'' 0 3) = Inr (Analysis 3 2 fr)
          \<and> map fst fr = [''frame_0000.jpg'', ''frame_0002.jpg''])"
proof -
  have m: "\<not> path_exists desk ''missing'' shelf" by code_simp
  have 1: "analyze_frames desk ''missing'' 8 shelf =
     Inr (Analysis_error ''Frames directory not found'' ''Directory missing does not exist'')"
    using m sampler_failures [OF refl, of desk "''missing''" 8 shelf] by simp
  have e: "path_exists desk ''frames'' [''notes.txt'']
           \<and> sort (glob desk ''frames'' ''frame_'' ''.jpg'' [''notes.txt'']) = []" by code_simp
  have 2: "analyze_frames desk ''frames'' 8 [''notes.txt''] =
     Inr (Analysis_error ''No frames found'' ''No frame_*.jpg files in frames'')"
    using e sampler_failures [OF refl, of desk "''frames''" 8 "[''notes.txt'']"] by simp
  have d: "path_exists desk ''dark'' (numbered ''frame_'' 0 2)
           \<and> sort (glob desk ''dark'' ''frame_'' ''.jpg'' (numbered ''frame_'' 0 2)) = [''frame_0000.jpg'', ''frame_0001.jpg'']
           \<and> selected_frames [''frame_0000.jpg'', ''frame_0001.jpg''] 8 = Inr [''frame_0000.jpg'', ''frame_0001.jpg'']
           \<and> read_frame desk ''dark'' ''frame_0000.jpg'' (numbered ''frame_'' 0 2) = None
           \<and> read_frame desk ''dark'' ''frame_0001.jpg'' (numbered ''frame_'' 0 2) = None" by code_simp
  have 3: "analyze_frames desk ''dark'' 8 (numbered ''frame_'' 0 2) =
     Inr (Analysis_error ''Failed to process frames'' ''Could not read any frame files'')"
    using d sampler_failures [OF refl, of desk "''dark''" 8 "numbered ''frame_'' 0 2"] by simp
  have f: "path_exists desk ''frames'' (numbered ''frame_'' 0 3)
           \<and> sort (glob desk ''frames'' ''frame_'' ''.jpg'' (numbered ''frame_'' 0 3)) = [''frame_0000.jpg'', ''frame_0001.jpg'', ''frame_0002.jpg'']
           \<and> selected_frames [''frame_0000.jpg'', ''frame_0001.jpg'', ''frame_0002.jpg''] 8 = Inr [''frame_0000.jpg'', ''frame_0001.jpg'', ''frame_0002.jpg'']
           \<and> read_frame desk ''frames'' ''frame_0000.jpg'' (numbered ''frame_'' 0 3) \<noteq> None
           \<and> read_frame desk ''frames'' ''frame_0001.jpg'' (numbered ''frame_'' 0 3) = None
           \<and> read_frame desk ''frames'' ''frame_0002.jpg'' (numbered ''frame_'' 0 3) \<noteq> None" by code_simp
  have 4: "\<exists>fr. analyze_frames desk ''frames'' 8 (numbered ''frame_'' 0 3) = Inr (Analysis 3 2 fr)
          \<and> map fst fr = [''frame_0000.jpg'', ''frame_0002.jpg'']"
    using f sampler_failures [OF refl, of desk "''frames''" 8 "numbered ''frame_'' 0 3"
        "[''frame_0000.jpg'', ''frame_0001.jpg'', ''frame_0002.jpg'']"]
    by (simp add: numeral_3_eq_3 numeral_2_eq_2)
  from 1 2 3 4 show ?thesis by blast
qed

text \<open>
  Claim C9. With a sample count of 0 and at least one \<^verbatim>\<open>frame_*.jpg\<close> file in an
  existing directory, \<^verbatim>\<open>analyze_frames\<close> returns no result at all, neither a success
  nor one of its three failures: the division \<^verbatim>\<open>total_frames // sample_count\<close> raises
  \<^verbatim>\<open>ZeroDivisionError\<close>, which nothing catches.
\<close>

theorem sample_count_zero_raises:
  assumes "path_exists env d w" and "glob env d ''frame_'' ''.jpg'' w \<noteq> []"
  shows "analyze_frames env d 0 w = Inl ZeroDivisionError"
proof -
  from assms(2) have "sort (glob env d ''frame_'' ''.jpg'' w) \<noteq> []"
    by (metis length_sort length_0_conv)
  then show ?thesis using assms(1)
    by (simp add: analyze_frames_def Let_def selected_frames_zero)
qed

theorem sample_count_zero_raises_witness:
  "path_exists desk ''frames'' (numbered ''frame_'' 0 3)
   \<and> glob desk ''frames'' ''frame_'' ''.jpg'' (numbered ''frame_'' 0 3) \<noteq> []
   \<and> analyze_frames desk ''frames'' 0 (numbered ''frame_'' 0 3) = Inl ZeroDivisionError"
proof -
  have e: "path_exists desk ''frames'' (numbered ''frame_'' 0 3)" by code_simp
  have g: "glob desk ''frames'' ''frame_'' ''.jpg'' (numbered ''frame_'' 0 3) \<noteq> []" by code_simp
  from e g sample_count_zero_raises [OF e g] show ?thesis by simp
qed

section \<open>Properties of the frame extraction\<close>

subsection \<open>Auxiliary facts\<close>

text \<open>
  The facts on the extractors are followed by those on the rounded division: the
  binary exponent brackets its argument, and for a double \<open>D\<close> below \<open>2 ^ 53\<close> in
  magnitude the rounded quotient \<open>D / 30\<close>, truncated and raised to at least 10, is
  the same as the exact one.
\<close>

lemma run_and_collect_world:
  "run_and_collect env cmd d pre m p w = (r, w') \<Longrightarrow> w' = snd (run env cmd w)"
  by (auto simp: run_and_collect_def Let_def split: prod.splits proc_outcome.splits)

lemma run_and_collect_success:
  assumes "run_and_collect env cmd d pre m p w = (Success m' p' c fs, w')"
  shows "m' = m \<and> p' = p \<and> fs = map (path_str env d) (sort (glob env d pre ''.jpg'' w')) \<and> c = length fs"
  using assms
  by (auto simp: run_and_collect_def Let_def split: prod.splits proc_outcome.splits)

lemma scene_calls:
  "extract_frames_scene env v d t s = (r, s') \<Longrightarrow> calls s' = calls s @ [Scene_call v d t]"
  by (auto simp: extract_frames_scene_def Let_def split: prod.splits option.splits)

lemma interval_calls:
  "extract_frames_interval env v d i s = (r, s') \<Longrightarrow> calls s' = calls s @ [Interval_call v d i]"
  by (auto simp: extract_frames_interval_def Let_def split: prod.splits option.splits)

lemma duration_calls:
  "get_video_duration env v s = (r, s') \<Longrightarrow> calls s' = calls s @ [Duration_call v]"
  by (auto simp: get_video_duration_def Let_def split: prod.splits proc_outcome.splits)

lemma scene_success:
  assumes "extract_frames_scene env v d t s = (Inr (Success m p c fs), s')"
  shows "m = ''scene_detection'' \<and> p = Threshold t
    \<and> fs = map (path_str env d) (sort (glob env d ''scene_'' ''.jpg'' (world s'))) \<and> c = length fs"
  using assms
  by (auto simp: extract_frames_scene_def Let_def split: prod.splits option.splits
           dest!: run_and_collect_success)

lemma interval_success:
  assumes "extract_frames_interval env v d i s = (Inr (Success m p c fs), s')"
  shows "m = ''interval'' \<and> p = Interval i
    \<and> fs = map (path_str env d) (sort (glob env d ''frame_'' ''.jpg'' (world s'))) \<and> c = length fs"
  using assms
  by (auto simp: extract_frames_interval_def Let_def split: prod.splits option.splits
           dest!: run_and_collect_success)

lemma int_of_ascii_examples:
  "int_of_ascii ''30'' = Some 30" "int_of_ascii '' 7 '' = Some 7" "int_of_ascii ''007'' = Some 7"
  "int_of_ascii ''+5'' = Some 5" "int_of_ascii ''-5'' = Some (- 5)" "int_of_ascii ''0'' = Some 0"
  "int_of_ascii ''1_000'' = Some 1000" "int_of_ascii ''1__0'' = None" "int_of_ascii ''_1'' = None"
  "int_of_ascii ''1_'' = None" "int_of_ascii ''- 5'' = None" "int_of_ascii ''+-5'' = None"
  "int_of_ascii ''5.0'' = None" "int_of_ascii ''1e3'' = None" "int_of_ascii ''0x10'' = None"
  "int_of_ascii [] = None" "int_of_ascii ''  '' = None" "int_of_ascii ''ten'' = None"
  "int_of_ascii ''5 5'' = None" "int_of_ascii ''-'' = None"
  by code_simp+

lemma auto_mode:
  assumes "argv = prog # video # dir # rest" and "rest = [] \<or> hd rest = ''auto''"
  shows "\<not> length argv < 3" and "argv ! 1 = video" and "argv ! 2 = dir"
    and "(if length argv > 3 then argv ! 3 else ''auto'') = ''auto''"
  using assms by (cases rest; auto)+

lemma binary_exponent_large:
  assumes "1 \<le> \<bar>x\<bar>"
  shows "0 \<le> binary_exponent x"
    and "2 powi binary_exponent x \<le> \<bar>x\<bar>"
    and "\<bar>x\<bar> < 2 powi (binary_exponent x + 1)"
proof -
  let ?n = "\<lfloor>\<bar>x\<bar>\<rfloor>"
  let ?b = "bitlen ?n"
  from assms have n: "0 < ?n" by simp
  from bitlen_bounds [OF n] have lo: "2 ^ nat (?b - 1) \<le> ?n" and hi: "?n < 2 ^ nat ?b"
    by simp_all
  from n have b: "1 \<le> ?b" by (simp add: bitlen_alt_def)
  have e: "binary_exponent x = ?b - 1" using assms by (simp add: binary_exponent_def)
  from b e show "0 \<le> binary_exponent x" by simp
  have "real_of_int (2 ^ nat (?b - 1)) \<le> real_of_int ?n" using lo by (simp only: of_int_le_iff)
  also have "\<dots> \<le> \<bar>x\<bar>" by simp
  finally show "2 powi binary_exponent x \<le> \<bar>x\<bar>"
    using b e by (simp add: power_int_nonneg_exp)
  from hi have "?n + 1 \<le> 2 ^ nat ?b" by simp
  then have "real_of_int (?n + 1) \<le> real_of_int (2 ^ nat ?b)" by (simp only: of_int_le_iff)
  then have "real_of_int ?n + 1 \<le> 2 ^ nat ?b" by simp
  moreover have "\<bar>x\<bar> < real_of_int ?n + 1" by (rule real_of_int_floor_add_one_gt)
  ultimately have "\<bar>x\<bar> < 2 ^ nat ?b" by linarith
  then show "\<bar>x\<bar> < 2 powi (binary_exponent x + 1)"
    using b e by (simp add: power_int_nonneg_exp)
qed

lemma binary_exponent_small:
  assumes "x \<noteq> 0" and "\<bar>x\<bar> < 1"
  shows "binary_exponent x \<le> 0"
    and "2 powi binary_exponent x \<le> \<bar>x\<bar>"
    and "\<bar>x\<bar> < 2 powi (binary_exponent x + 1)"
proof -
  let ?y = "1 / \<bar>x\<bar>"
  let ?c = "\<lceil>?y\<rceil>"
  let ?b = "bitlen (?c - 1)"
  from assms have x: "0 < \<bar>x\<bar>" by simp
  with assms have y: "1 < ?y" by simp
  then have c: "0 < ?c - 1" by simp
  from bitlen_bounds [OF c] have lo: "2 ^ nat (?b - 1) \<le> ?c - 1" and hi: "?c - 1 < 2 ^ nat ?b"
    by simp_all
  from c have b: "1 \<le> ?b" by (simp add: bitlen_alt_def)
  have e: "binary_exponent x = - ?b" using assms by (simp add: binary_exponent_def)
  from b e show "binary_exponent x \<le> 0" by simp
  from hi have "?c \<le> 2 ^ nat ?b" by simp
  then have "real_of_int ?c \<le> real_of_int (2 ^ nat ?b)" by (simp only: of_int_le_iff)
  then have "real_of_int ?c \<le> 2 ^ nat ?b" by simp
  moreover have "?y \<le> real_of_int ?c" by (rule le_of_int_ceiling)
  ultimately have "?y \<le> 2 ^ nat ?b" by linarith
  with x have "1 \<le> 2 ^ nat ?b * \<bar>x\<bar>" by (simp add: field_simps)
  then have "1 / 2 ^ nat ?b \<le> \<bar>x\<bar>" by (simp add: field_simps)
  then show "2 powi binary_exponent x \<le> \<bar>x\<bar>"
    using b e by (simp add: power_int_minus_divide power_int_nonneg_exp)
  have "real_of_int (2 ^ nat (?b - 1)) \<le> real_of_int (?c - 1)" using lo by (simp only: of_int_le_iff)
  then have "2 ^ nat (?b - 1) \<le> real_of_int ?c - 1" by simp
  moreover have "real_of_int ?c - 1 < ?y" using of_int_ceiling_diff_one_le [of ?y] ceiling_correct [of ?y] by linarith
  ultimately have "2 ^ nat (?b - 1) < ?y" by linarith
  with x have "2 ^ nat (?b - 1) * \<bar>x\<bar> < 1" by (simp add: field_simps)
  then have "\<bar>x\<bar> < 1 / 2 ^ nat (?b - 1)" by (simp add: field_simps)
  moreover have "(2::real) powi (binary_exponent x + 1) = 2 powi (- (?b - 1))" using e by simp
  moreover have "(2::real) powi (- (?b - 1)) = 1 / 2 powi (?b - 1)" by (rule power_int_minus_divide)
  moreover have "(2::real) powi (?b - 1) = 2 ^ nat (?b - 1)" using b by (simp add: power_int_nonneg_exp)
  ultimately show "\<bar>x\<bar> < 2 powi (binary_exponent x + 1)" by simp
qed

lemma binary_exponent_bounds:
  assumes "x \<noteq> 0"
  shows "2 powi binary_exponent x \<le> \<bar>x\<bar>" and "\<bar>x\<bar> < 2 powi (binary_exponent x + 1)"
  using assms binary_exponent_large [of x] binary_exponent_small [of x]
  by (cases "1 \<le> \<bar>x\<bar>"; simp)+

lemma binary_exponent_less:
  assumes "x \<noteq> 0" and "\<bar>x\<bar> < 2 powi e"
  shows "binary_exponent x < e"
proof (rule ccontr)
  assume "\<not> binary_exponent x < e"
  then have "(2::real) powi e \<le> 2 powi binary_exponent x"
    by (simp add: power_int_increasing)
  with binary_exponent_bounds(1) [OF assms(1)] assms(2) show False by simp
qed

lemma binary_exponent_ge:
  assumes "2 powi e \<le> \<bar>x\<bar>"
  shows "e \<le> binary_exponent x"
proof (rule ccontr)
  assume "\<not> e \<le> binary_exponent x"
  then have le: "(2::real) powi (binary_exponent x + 1) \<le> 2 powi e"
    by (simp add: power_int_increasing)
  have "0 < (2::real) powi e" by simp
  with assms have "0 < \<bar>x\<bar>" by linarith
  then have "x \<noteq> 0" by simp
  then have "\<bar>x\<bar> < 2 powi (binary_exponent x + 1)" by (rule binary_exponent_bounds(2))
  with le assms show False by linarith
qed

lemma binary_exponent_zero: "binary_exponent 0 = 0"
  by (simp add: binary_exponent_def bitlen_eq_zero_iff)

lemma overflow_iff: "1024 \<le> binary_exponent r \<longleftrightarrow> 2 ^ 1024 \<le> \<bar>r\<bar>"
proof
  assume e: "1024 \<le> binary_exponent r"
  then have "r \<noteq> 0" by (auto simp: binary_exponent_zero)
  then have "2 powi binary_exponent r \<le> \<bar>r\<bar>" by (rule binary_exponent_bounds(1))
  moreover from e have "(2::real) powi 1024 \<le> 2 powi binary_exponent r"
    by (simp only: power_int_increasing)
  ultimately show "2 ^ 1024 \<le> \<bar>r\<bar>" by simp
next
  assume "2 ^ 1024 \<le> \<bar>r\<bar>"
  then have "2 powi 1024 \<le> \<bar>r\<bar>" by simp
  then show "1024 \<le> binary_exponent r" by (rule binary_exponent_ge)
qed

lemma round_half_even_near:
  shows "real_of_int (round_half_even r) \<le> r + 1 / 2"
    and "r - 1 / 2 \<le> real_of_int (round_half_even r)"
  by (auto simp: round_half_even_def Let_def) linarith+

lemma round_half_even_ge:
  assumes "real_of_int a \<le> r"
  shows "a \<le> round_half_even r"
proof -
  from assms have "a \<le> \<lfloor>r\<rfloor>" by (simp add: le_floor_iff)
  then show ?thesis by (auto simp: round_half_even_def Let_def)
qed

lemma round_half_even_le:
  assumes "r \<le> real_of_int b"
  shows "round_half_even r \<le> b"
proof -
  have "round_half_even r \<le> \<lceil>r\<rceil>"
    by (auto simp: round_half_even_def Let_def ceiling_altdef)
  moreover from assms have "\<lceil>r\<rceil> \<le> b" by (simp add: ceiling_le_iff)
  ultimately show ?thesis by simp
qed

lemma round_double_small:
  assumes "x \<noteq> 0" and "\<bar>x\<bar> < 2 ^ 49"
  obtains j where "4 \<le> j" and "1 \<le> \<bar>x\<bar> \<longrightarrow> 2 ^ 52 \<le> \<bar>x\<bar> * 2 ^ j"
    and "round_double x = Finite (of_int (round_half_even (x * 2 ^ j)) / 2 ^ j)"
proof -
  let ?g = "binary_exponent x"
  let ?s = "max (?g - 52) (- 1074)"
  define j where "j = nat (- ?s)"
  from assms have "?g < 49" by (intro binary_exponent_less) simp_all
  then have s: "?s \<le> - 4" by simp
  then have j: "4 \<le> j" and sj: "?s = - int j" by (simp_all add: j_def)
  have "ulp x = 2 powi (- int j)" using sj by (simp add: ulp_def)
  also have "\<dots> = 1 / 2 powi (int j)" by (rule power_int_minus_divide)
  finally have u: "ulp x = 1 / 2 ^ j" by simp
  let ?r = "real_of_int (round_half_even (x * 2 ^ j)) / 2 ^ j"
  have big: "1 \<le> \<bar>x\<bar> \<longrightarrow> 2 ^ 52 \<le> \<bar>x\<bar> * 2 ^ j"
  proof
    assume x: "1 \<le> \<bar>x\<bar>"
    from binary_exponent_large [OF x] have g: "0 \<le> ?g" and lo: "2 powi ?g \<le> \<bar>x\<bar>" by simp_all
    from g have "?s = ?g - 52" by simp
    with sj have gj: "nat ?g + j = 52" using g by simp
    from lo g have "2 ^ nat ?g \<le> \<bar>x\<bar>" by (simp add: power_int_nonneg_exp)
    then have "2 ^ nat ?g * 2 ^ j \<le> \<bar>x\<bar> * 2 ^ j" by simp
    moreover have "(2::real) ^ nat ?g * 2 ^ j = 2 ^ 52" using gj by (simp flip: power_add)
    ultimately show "2 ^ 52 \<le> \<bar>x\<bar> * 2 ^ j" by simp
  qed
  have "\<bar>real_of_int (round_half_even (x * 2 ^ j))\<bar> \<le> \<bar>x * 2 ^ j\<bar> + 1 / 2"
    using round_half_even_near(1) [of "x * 2 ^ j"] round_half_even_near(2) [of "x * 2 ^ j"]
    by linarith
  then have "\<bar>?r\<bar> \<le> (\<bar>x\<bar> * 2 ^ j + 1 / 2) / 2 ^ j"
    by (simp add: abs_mult divide_right_mono)
  also have "\<dots> = \<bar>x\<bar> + 1 / 2 / 2 ^ j" by (simp add: field_simps)
  also have "\<dots> \<le> \<bar>x\<bar> + 1"
  proof -
    have "(1::real) \<le> 2 ^ j" by simp
    then have "1 \<le> 2 * (2::real) ^ j" by linarith
    then have "1 / 2 / (2::real) ^ j \<le> 1" by (simp add: field_simps)
    then show ?thesis by simp
  qed
  also have "\<dots> < 2 ^ 49 + 1" using assms(2) by simp
  also have "\<dots> < (2::real) powi 1024" by simp
  finally have small: "\<bar>?r\<bar> < 2 powi 1024" .
  have "binary_exponent ?r < 1024"
  proof (cases "?r = 0")
    case True
    then show ?thesis by (simp add: binary_exponent_zero)
  next
    case False
    from this small show ?thesis by (rule binary_exponent_less)
  qed
  then have "round_double x = Finite ?r"
    using assms(1) u by (simp add: round_double_def Let_def)
  with j big show thesis by (rule that)
qed

lemma double_multiple:
  assumes "is_double D" and "2 ^ 52 \<le> \<bar>D\<bar> * 2 ^ i"
  shows "\<exists>A::int. D * 2 ^ i = of_int A"
proof -
  let ?h = "binary_exponent D"
  let ?s = "max (?h - 52) (- 1074)"
  let ?M = "round_half_even (D / ulp D)"
  from assms(2) have nz: "D \<noteq> 0" by auto
  have "D = of_int ?M * ulp D"
    using assms(1) nz by (auto simp: is_double_def round_double_def Let_def split: if_splits)
  then have D: "D = of_int ?M * 2 powi ?s" by (simp add: ulp_def)
  have "(2::real) powi (52 - int i) = 2 ^ 52 / 2 ^ i"
    by (simp add: power_int_diff)
  also have "\<dots> \<le> \<bar>D\<bar>" using assms(2) by (simp add: field_simps)
  finally have "52 - int i \<le> ?h" by (rule binary_exponent_ge)
  then have si: "0 \<le> ?s + int i" by simp
  have "D * 2 ^ i = of_int ?M * (2 powi ?s * 2 powi (int i))" by (subst D) simp
  also have "2 powi ?s * 2 powi (int i) = (2::real) powi (?s + int i)" by (simp add: power_int_add)
  also have "\<dots> = 2 ^ nat (?s + int i)" using si by (simp add: power_int_nonneg_exp)
  finally have "D * 2 ^ i = of_int (?M * 2 ^ nat (?s + int i))" by simp
  then show ?thesis ..
qed


lemma int_of_div30:
  assumes "is_double D" and "\<bar>D\<bar> < 2 ^ 53"
  shows "\<exists>q. int_of_float (float_div (Finite D) 30) = Inr q \<and> max 10 q = max 10 \<lfloor>D / 30\<rfloor>"
proof (cases "D = 0")
  case True
  then show ?thesis by (simp add: round_double_def)
next
  case nz: False
  let ?x = "D / 30"
  from nz have x0: "?x \<noteq> 0" by simp
  have "\<bar>?x\<bar> = \<bar>D\<bar> / 30" by simp
  also have "\<dots> < 2 ^ 53 / 30" using assms(2) by (simp add: divide_strict_right_mono)
  also have "\<dots> < (2::real) ^ 49" by simp
  finally have xb: "\<bar>?x\<bar> < 2 ^ 49" .
  from round_double_small [OF x0 xb] obtain j
    where j: "4 \<le> j" and big: "1 \<le> \<bar>?x\<bar> \<longrightarrow> 2 ^ 52 \<le> \<bar>?x\<bar> * 2 ^ j"
      and rd: "round_double ?x = Finite (of_int (round_half_even (?x * 2 ^ j)) / 2 ^ j)"
    by blast
  let ?R = "round_half_even (?x * 2 ^ j)"
  let ?r = "real_of_int ?R / 2 ^ j"
  have pos: "0 < (2::real) ^ j" by simp
  from rd have q: "int_of_float (float_div (Finite D) 30) = Inr (if 0 \<le> ?r then \<lfloor>?r\<rfloor> else \<lceil>?r\<rceil>)"
    by simp
  show ?thesis
  proof (cases "?x < 10")
    case True
    then have "?x * 2 ^ j \<le> real_of_int (10 * 2 ^ j)" by simp
    then have "?R \<le> 10 * 2 ^ j" by (rule round_half_even_le)
    then have "real_of_int ?R \<le> real_of_int (10 * 2 ^ j)" by (simp only: of_int_le_iff)
    then have "?r \<le> 10" using pos by (simp add: field_simps)
    then have "\<lfloor>?r\<rfloor> \<le> 10" and "\<lceil>?r\<rceil> \<le> 10"
      by (simp_all add: floor_le_iff ceiling_le_iff)
    moreover from True have "\<lfloor>?x\<rfloor> < 10" by (simp add: floor_less_iff)
    ultimately show ?thesis using q by auto
  next
    case False
    define k where "k = \<lfloor>?x\<rfloor>"
    from False have k10: "10 \<le> k" by (simp add: k_def le_floor_iff)
    have klo: "real_of_int k \<le> ?x" and khi: "?x < real_of_int k + 1"
      by (simp_all add: k_def) linarith
    from j obtain p where jp: "j = p + 4" by (metis add.commute le_Suc_ex)
    have j16: "(2::real) ^ j = 16 * 2 ^ p" by (simp add: jp power_add)
    from False have x1: "1 \<le> \<bar>?x\<bar>" by linarith
    with big have "2 ^ 52 \<le> \<bar>?x\<bar> * 2 ^ j" by simp
    also have "\<bar>?x\<bar> * 2 ^ j = \<bar>D\<bar> * 2 ^ p * (16 / 30)" by (simp add: j16)
    also have "\<dots> \<le> \<bar>D\<bar> * 2 ^ p" by (simp add: mult_left_le)
    finally have "2 ^ 52 \<le> \<bar>D\<bar> * 2 ^ p" .
    from double_multiple [OF assms(1) this] obtain A :: int where A: "D * 2 ^ p = of_int A" ..
    from khi have "D < 30 * (real_of_int k + 1)" by simp
    then have "D * 2 ^ p < 30 * (real_of_int k + 1) * 2 ^ p" by simp
    with A have "real_of_int A < real_of_int (30 * (k + 1) * 2 ^ p)" by simp
    then have "A < 30 * (k + 1) * 2 ^ p" by (simp only: of_int_less_iff)
    then have "A + 1 \<le> 30 * (k + 1) * 2 ^ p" by simp
    then have "real_of_int (A + 1) \<le> real_of_int (30 * (k + 1) * 2 ^ p)" by (simp only: of_int_le_iff)
    with A have gap: "D * 2 ^ p + 1 \<le> 30 * (real_of_int k + 1) * 2 ^ p" by simp
    have "?x * 2 ^ j = (16 / 30) * (D * 2 ^ p)" by (simp add: j16)
    also have "\<dots> \<le> (16 / 30) * (30 * (real_of_int k + 1) * 2 ^ p - 1)" using gap by simp
    also have "\<dots> = (real_of_int k + 1) * 2 ^ j - 16 / 30" by (simp add: j16 algebra_simps)
    finally have "?x * 2 ^ j + 1 / 2 < (real_of_int k + 1) * 2 ^ j" by simp
    with round_half_even_near(1) [of "?x * 2 ^ j"]
    have "real_of_int ?R < (real_of_int k + 1) * 2 ^ j" by linarith
    then have up: "?r < real_of_int k + 1" using pos by (simp add: field_simps)
    from klo have "real_of_int (k * 2 ^ j) \<le> ?x * 2 ^ j" by simp
    then have "k * 2 ^ j \<le> ?R" by (rule round_half_even_ge)
    then have "real_of_int (k * 2 ^ j) \<le> real_of_int ?R" by (simp only: of_int_le_iff)
    then have lo: "real_of_int k \<le> ?r" using pos by (simp add: field_simps)
    from lo up have "\<lfloor>?r\<rfloor> = k" by (simp add: floor_eq_iff)
    moreover from lo k10 have "0 \<le> ?r" by linarith
    ultimately show ?thesis using q by (simp add: k_def)
  qed
qed

lemma round_double_examples:
  shows "is_double 900" and "is_double 0" and "is_double (3 / 4)" and "\<not> is_double (1 / 10)"
    and "round_double (1 / 10) = Finite (3602879701896397 / 36028797018963968)"
    and "float_div (Finite 900) 30 = Finite 30"
    and "float_div (Finite (10 ^ 18)) 30 = Finite 33333333333333332"
    and "float_div (Finite 33779370730917568) 30 = Finite 1125979024363919"
  by code_simp+

subsection \<open>The extractors\<close>

text \<open>
  Claim C4 says that a success result of an extractor never has an empty frame
  sequence. The extractors have no such check: when the run of \<^verbatim>\<open>ffmpeg\<close> completes,
  the result is a success whatever the directory holds. On \<open>still_video\<close> the run
  completes, no file matches, and both extractors return a success with
  \<^verbatim>\<open>frame_count\<close> 0 and no frame.
\<close>

theorem empty_extraction_is_success:
  "run still_video
       [''ffmpeg'', ''-i'', ''video.mp4'', ''-vf'', ''select=gt(scene'' @ [CHR 0x5C] @ '',0.3)'',
        ''-vsync'', ''vfr'', ''-q:v'', ''2'', ''out/scene_%04d.jpg'', ''-y''] [] = (Completed [], [])
   \<and> extract_frames_scene still_video ''video.mp4'' ''out'' (Finite (3 / 10)) idle =
       (Inr (Success ''scene_detection'' (Threshold (Finite (3 / 10))) 0 []),
        \<lparr>world = [], calls = [Scene_call ''video.mp4'' ''out'' (Finite (3 / 10))]\<rparr>)
   \<and> extract_frames_interval still_video ''video.mp4'' ''out'' 10 idle =
       (Inr (Success ''interval'' (Interval 10) 0 []),
        \<lparr>world = [], calls = [Interval_call ''video.mp4'' ''out'' 10]\<rparr>)"
  by code_simp

text \<open>
  Claim C4, as the code has it. Whenever the output directory can be made and the run
  of the command line that \<^verbatim>\<open>extract_frames_scene\<close> builds completes, the function
  returns a success result, whatever the directory holds: its frames are the paths of
  the \<^verbatim>\<open>scene_*.jpg\<close> files in the directory as the run left it, sorted, and its
  \<^verbatim>\<open>frame_count\<close> is their number, also when there are none. The same holds for
  \<^verbatim>\<open>extract_frames_interval\<close> and the \<^verbatim>\<open>frame_*.jpg\<close> files, and for the \<^verbatim>\<open>try\<close>
  block the two share. Conversely, every success result of the two extractors records
  the method and its parameter and lists exactly those files; its frame sequence is
  empty exactly when no file matches.
\<close>

theorem extractor_success_lists_matching_files:
  "(makedirs env d (world s) = (None, w1) \<and> get_ffmpeg_path env w1 = (ffmpeg, w2)
      \<and> run env [ffmpeg, ''-i'', v,
                  ''-vf'', ''select=gt(scene'' @ [CHR 0x5C] @ '','' @ str_of_float env t @ '')'',
                  ''-vsync'', ''vfr'', ''-q:v'', ''2'', os_path_join d ''scene_%04d.jpg'', ''-y'']
            w2 = (Completed out, w3) \<longrightarrow>
      extract_frames_scene env v d t s =
        (Inr (Success ''scene_detection'' (Threshold t) (length (glob env d ''scene_'' ''.jpg'' w3))
                (map (path_str env d) (sort (glob env d ''scene_'' ''.jpg'' w3)))),
         \<lparr>world = w3, calls = calls s @ [Scene_call v d t]\<rparr>))
   \<and> (makedirs env d (world s) = (None, w1) \<and> get_ffmpeg_path env w1 = (ffmpeg, w2)
      \<and> run env [ffmpeg, ''-i'', v, ''-vf'', ''fps=1/'' @ str_int i,
                  ''-q:v'', ''2'', os_path_join d ''frame_%04d.jpg'', ''-y'']
            w2 = (Completed out, w3) \<longrightarrow>
      extract_frames_interval env v d i s =
        (Inr (Success ''interval'' (Interval i) (length (glob env d ''frame_'' ''.jpg'' w3))
                (map (path_str env d) (sort (glob env d ''frame_'' ''.jpg'' w3)))),
         \<lparr>world = w3, calls = calls s @ [Interval_call v d i]\<rparr>))
   \<and> (run env cmd w = (Completed out, w') \<longrightarrow>
      run_and_collect env cmd d pre m p w =
        (Success m p (length (glob env d pre ''.jpg'' w'))
           (map (path_str env d) (sort (glob env d pre ''.jpg'' w'))), w'))
   \<and> (extract_frames_scene env v d t s = (Inr (Success m' p' c fs), s') \<longrightarrow>
        m' = ''scene_detection'' \<and> p' = Threshold t \<and> c = length fs
        \<and> fs = map (path_str env d) (sort (glob env d ''scene_'' ''.jpg'' (world s')))
        \<and> (fs = [] \<longleftrightarrow> glob env d ''scene_'' ''.jpg'' (world s') = []))
   \<and> (extract_frames_interval env v d i s = (Inr (Success m' p' c fs), s') \<longrightarrow>
        m' = ''interval'' \<and> p' = Interval i \<and> c = length fs
        \<and> fs = map (path_str env d) (sort (glob env d ''frame_'' ''.jpg'' (world s')))
        \<and> (fs = [] \<longleftrightarrow> glob env d ''frame_'' ''.jpg'' (world s') = []))"
proof -
  have sc: "makedirs env d (world s) = (None, w1) \<and> get_ffmpeg_path env w1 = (ffmpeg, w2)
      \<and> run env [ffmpeg, ''-i'', v,
                  ''-vf'', ''select=gt(scene'' @ [CHR 0x5C] @ '','' @ str_of_float env t @ '')'',
                  ''-vsync'', ''vfr'', ''-q:v'', ''2'', os_path_join d ''scene_%04d.jpg'', ''-y'']
            w2 = (Completed out, w3) \<longrightarrow>
      extract_frames_scene env v d t s =
        (Inr (Success ''scene_detection'' (Threshold t) (length (glob env d ''scene_'' ''.jpg'' w3))
                (map (path_str env d) (sort (glob env d ''scene_'' ''.jpg'' w3)))),
         \<lparr>world = w3, calls = calls s @ [Scene_call v d t]\<rparr>)"
    by (simp add: extract_frames_scene_def run_and_collect_def Let_def)
  have iv: "makedirs env d (world s) = (None, w1) \<and> get_ffmpeg_path env w1 = (ffmpeg, w2)
      \<and> run env [ffmpeg, ''-i'', v, ''-vf'', ''fps=1/'' @ str_int i,
                  ''-q:v'', ''2'', os_path_join d ''frame_%04d.jpg'', ''-y'']
            w2 = (Completed out, w3) \<longrightarrow>
      extract_frames_interval env v d i s =
        (Inr (Success ''interval'' (Interval i) (length (glob env d ''frame_'' ''.jpg'' w3))
                (map (path_str env d) (sort (glob env d ''frame_'' ''.jpg'' w3)))),
         \<lparr>world = w3, calls = calls s @ [Interval_call v d i]\<rparr>)"
    by (simp add: extract_frames_interval_def run_and_collect_def Let_def)
  have a: "run env cmd w = (Completed out, w') \<longrightarrow>
      run_and_collect env cmd d pre m p w =
        (Success m p (length (glob env d pre ''.jpg'' w'))
           (map (path_str env d) (sort (glob env d pre ''.jpg'' w'))), w')"
    by (simp add: run_and_collect_def Let_def)
  have e: "(sort xs = []) = (xs = [])" for xs :: "string list"
    by (metis length_0_conv length_sort)
  have b: "extract_frames_scene env v d t s = (Inr (Success m' p' c fs), s') \<longrightarrow>
        m' = ''scene_detection'' \<and> p' = Threshold t \<and> c = length fs
        \<and> fs = map (path_str env d) (sort (glob env d ''scene_'' ''.jpg'' (world s')))
        \<and> (fs = [] \<longleftrightarrow> glob env d ''scene_'' ''.jpg'' (world s') = [])"
    using scene_success [of env v d t s m' p' c fs s'] by (auto simp: e)
  have c: "extract_frames_interval env v d i s = (Inr (Success m' p' c fs), s') \<longrightarrow>
        m' = ''interval'' \<and> p' = Interval i \<and> c = length fs
        \<and> fs = map (path_str env d) (sort (glob env d ''frame_'' ''.jpg'' (world s')))
        \<and> (fs = [] \<longleftrightarrow> glob env d ''frame_'' ''.jpg'' (world s') = [])"
    using interval_success [of env v d i s m' p' c fs s'] by (auto simp: e)
  from sc iv a b c show ?thesis by blast
qed

theorem extractor_success_lists_matching_files_witness:
  "extract_frames_scene still_video ''video.mp4'' ''out'' (Finite (3 / 10)) idle =
       (Inr (Success ''scene_detection'' (Threshold (Finite (3 / 10))) 0 []),
        \<lparr>world = [], calls = [Scene_call ''video.mp4'' ''out'' (Finite (3 / 10))]\<rparr>)
   \<and> extract_frames_interval calm_video ''video.mp4'' ''out'' 10 idle =
       (Inr (Success ''interval'' (Interval 10) 30 (map ((@) ''out/'') (numbered ''frame_'' 1 31))),
        \<lparr>world = numbered ''frame_'' 1 31, calls = [Interval_call ''video.mp4'' ''out'' 10]\<rparr>)
   \<and> run_and_collect still_video [''ffmpeg'', ''-i'', ''video.mp4''] ''out'' ''scene_''
         ''scene_detection'' (Threshold (Finite (3 / 10))) [] =
       (Success ''scene_detection'' (Threshold (Finite (3 / 10))) 0 [], [])
   \<and> map ((@) ''out/'') (numbered ''scene_'' 1 13) =
       map (path_str calm_video ''out'')
         (sort (glob calm_video ''out'' ''scene_'' ''.jpg'' (numbered ''scene_'' 1 13)))
   \<and> map ((@) ''out/'') (numbered ''frame_'' 1 31) =
       map (path_str calm_video ''out'')
         (sort (glob calm_video ''out'' ''frame_'' ''.jpg'' (numbered ''frame_'' 1 31)))"
proof -
  let ?fs = "map ((@) ''out/'') (numbered ''scene_'' 1 13)"
  let ?s = "\<lparr>world = numbered ''scene_'' 1 13,
         calls = [Scene_call ''video.mp4'' ''out'' (Finite (3 / 10))]\<rparr>"
  let ?gs = "map ((@) ''out/'') (numbered ''frame_'' 1 31)"
  let ?t = "\<lparr>world = numbered ''frame_'' 1 31, calls = [Interval_call ''video.mp4'' ''out'' 10]\<rparr>"
  have mk: "makedirs still_video ''out'' (world idle) = (None, [])
            \<and> get_ffmpeg_path still_video [] = (''ffmpeg'', [])
            \<and> run still_video [''ffmpeg'', ''-i'', ''video.mp4'',
                  ''-vf'', ''select=gt(scene'' @ [CHR 0x5C] @ '','' @
                           str_of_float still_video (Finite (3 / 10)) @ '')'',
                  ''-vsync'', ''vfr'', ''-q:v'', ''2'', os_path_join ''out'' ''scene_%04d.jpg'', ''-y'']
                [] = (Completed [], [])"
    by code_simp
  have gl: "glob still_video ''out'' ''scene_'' ''.jpg'' [] = []" and cl: "calls idle = []"
    by code_simp+
  from extractor_success_lists_matching_files
      [of still_video "''out''" idle "[]" "''ffmpeg''" "[]" "''video.mp4''" "Finite (3 / 10)" "[]" "[]"]
  have "makedirs still_video ''out'' (world idle) = (None, [])
            \<and> get_ffmpeg_path still_video [] = (''ffmpeg'', [])
            \<and> run still_video [''ffmpeg'', ''-i'', ''video.mp4'',
                  ''-vf'', ''select=gt(scene'' @ [CHR 0x5C] @ '','' @
                           str_of_float still_video (Finite (3 / 10)) @ '')'',
                  ''-vsync'', ''vfr'', ''-q:v'', ''2'', os_path_join ''out'' ''scene_%04d.jpg'', ''-y'']
                [] = (Completed [], []) \<longrightarrow>
        extract_frames_scene still_video ''video.mp4'' ''out'' (Finite (3 / 10)) idle =
        (Inr (Success ''scene_detection'' (Threshold (Finite (3 / 10)))
                (length (glob still_video ''out'' ''scene_'' ''.jpg'' []))
                (map (path_str still_video ''out'') (sort (glob still_video ''out'' ''scene_'' ''.jpg'' [])))),
         \<lparr>world = [], calls = calls idle @ [Scene_call ''video.mp4'' ''out'' (Finite (3 / 10))]\<rparr>)"
    by blast
  with mk have 1: "extract_frames_scene still_video ''video.mp4'' ''out'' (Finite (3 / 10)) idle =
       (Inr (Success ''scene_detection'' (Threshold (Finite (3 / 10))) 0 []),
        \<lparr>world = [], calls = [Scene_call ''video.mp4'' ''out'' (Finite (3 / 10))]\<rparr>)"
    by (simp add: gl cl)
  have mk2: "makedirs calm_video ''out'' (world idle) = (None, [])
            \<and> get_ffmpeg_path calm_video [] = (''ffmpeg'', [])
            \<and> run calm_video [''ffmpeg'', ''-i'', ''video.mp4'', ''-vf'', ''fps=1/'' @ str_int 10,
                  ''-q:v'', ''2'', os_path_join ''out'' ''frame_%04d.jpg'', ''-y'']
                [] = (Completed [], numbered ''frame_'' 1 31)"
    by code_simp
  have gl2: "length (glob calm_video ''out'' ''frame_'' ''.jpg'' (numbered ''frame_'' 1 31)) = 30"
    and pl2: "map (path_str calm_video ''out'')
               (sort (glob calm_video ''out'' ''frame_'' ''.jpg'' (numbered ''frame_'' 1 31))) = ?gs"
    by code_simp+
  from extractor_success_lists_matching_files
      [of calm_video "''out''" idle "[]" "''ffmpeg''" "[]" "''video.mp4''" _ "[]" "numbered ''frame_'' 1 31" 10]
  have "makedirs calm_video ''out'' (world idle) = (None, [])
            \<and> get_ffmpeg_path calm_video [] = (''ffmpeg'', [])
            \<and> run calm_video [''ffmpeg'', ''-i'', ''video.mp4'', ''-vf'', ''fps=1/'' @ str_int 10,
                  ''-q:v'', ''2'', os_path_join ''out'' ''frame_%04d.jpg'', ''-y'']
                [] = (Completed [], numbered ''frame_'' 1 31) \<longrightarrow>
        extract_frames_interval calm_video ''video.mp4'' ''out'' 10 idle =
        (Inr (Success ''interval'' (Interval 10)
                (length (glob calm_video ''out'' ''frame_'' ''.jpg'' (numbered ''frame_'' 1 31)))
                (map (path_str calm_video ''out'')
                   (sort (glob calm_video ''out'' ''frame_'' ''.jpg'' (numbered ''frame_'' 1 31))))),
         \<lparr>world = numbered ''frame_'' 1 31, calls = calls idle @ [Interval_call ''video.mp4'' ''out'' 10]\<rparr>)"
    by blast
  with mk2 have "extract_frames_interval calm_video ''video.mp4'' ''out'' 10 idle =
        (Inr (Success ''interval'' (Interval 10)
                (length (glob calm_video ''out'' ''frame_'' ''.jpg'' (numbered ''frame_'' 1 31)))
                (map (path_str calm_video ''out'')
                   (sort (glob calm_video ''out'' ''frame_'' ''.jpg'' (numbered ''frame_'' 1 31))))),
         \<lparr>world = numbered ''frame_'' 1 31, calls = calls idle @ [Interval_call ''video.mp4'' ''out'' 10]\<rparr>)"
    by blast
  then have 2: "extract_frames_interval calm_video ''video.mp4'' ''out'' 10 idle =
       (Inr (Success ''interval'' (Interval 10) 30 ?gs), ?t)"
    by (simp only: gl2 pl2 cl append_Nil)
  have rn: "run still_video [''ffmpeg'', ''-i'', ''video.mp4''] [] = (Completed [], [])"
    by code_simp
  from extractor_success_lists_matching_files
      [of still_video "''out''" _ _ _ _ _ _ "[]" _ _ "[''ffmpeg'', ''-i'', ''video.mp4'']" "[]" "[]"
          "''scene_''" "''scene_detection''" "Threshold (Finite (3 / 10))"]
  have "run still_video [''ffmpeg'', ''-i'', ''video.mp4''] [] = (Completed [], []) \<longrightarrow>
        run_and_collect still_video [''ffmpeg'', ''-i'', ''video.mp4''] ''out'' ''scene_''
          ''scene_detection'' (Threshold (Finite (3 / 10))) [] =
        (Success ''scene_detection'' (Threshold (Finite (3 / 10)))
           (length (glob still_video ''out'' ''scene_'' ''.jpg'' []))
           (map (path_str still_video ''out'') (sort (glob still_video ''out'' ''scene_'' ''.jpg'' []))), [])"
    by blast
  with rn have 3: "run_and_collect still_video [''ffmpeg'', ''-i'', ''video.mp4''] ''out'' ''scene_''
         ''scene_detection'' (Threshold (Finite (3 / 10))) [] =
       (Success ''scene_detection'' (Threshold (Finite (3 / 10))) 0 [], [])"
    by (simp add: gl)
  have sc: "extract_frames_scene calm_video ''video.mp4'' ''out'' (Finite (3 / 10)) idle =
       (Inr (Success ''scene_detection'' (Threshold (Finite (3 / 10))) 12 ?fs), ?s)"
    by code_simp
  from extractor_success_lists_matching_files
      [of calm_video "''out''" idle _ _ _ "''video.mp4''" "Finite (3 / 10)" _ _ _ _ _ _ _ _ _
          "''scene_detection''" "Threshold (Finite (3 / 10))" 12 ?fs ?s]
  have "extract_frames_scene calm_video ''video.mp4'' ''out'' (Finite (3 / 10)) idle =
          (Inr (Success ''scene_detection'' (Threshold (Finite (3 / 10))) 12 ?fs), ?s) \<longrightarrow>
        ?fs = map (path_str calm_video ''out'')
               (sort (glob calm_video ''out'' ''scene_'' ''.jpg'' (world ?s)))"
    by blast
  with sc have 4: "?fs = map (path_str calm_video ''out'')
         (sort (glob calm_video ''out'' ''scene_'' ''.jpg'' (numbered ''scene_'' 1 13)))"
    by simp
  from 2 extractor_success_lists_matching_files
      [of calm_video "''out''" idle _ _ _ "''video.mp4''" _ _ _ 10 _ _ _ _ _ _
          "''interval''" "Interval 10" 30 ?gs ?t]
  have 5: "?gs = map (path_str calm_video ''out'')
         (sort (glob calm_video ''out'' ''frame_'' ''.jpg'' (numbered ''frame_'' 1 31)))"
    by simp
  from 1 2 3 4 5 show ?thesis by simp
qed

text \<open>
  Claim C6. In automatic mode (no third argument, or the argument \<^verbatim>\<open>auto\<close>), when the
  scene extraction succeeds with a frame count from 5 to 50, \<^verbatim>\<open>main\<close> prints that
  result and exits with status 0, in the state the scene extraction left: the only
  call made is the one of the scene extractor, neither the duration probe nor the
  interval extractor is called.
\<close>

theorem auto_keeps_scene_result_in_band:
  assumes "argv = prog # video # dir # rest" and "rest = [] \<or> hd rest = ''auto''"
    and "path_exists env video (world s)"
    and "extract_frames_scene env video dir (Finite (3 / 10)) s = (Inr (Success m p c fs), s1)"
    and "5 \<le> c" and "c \<le> 50"
  shows "main env argv s = (Exit0 (Success m p c fs), s1)
    \<and> calls s1 = calls s @ [Scene_call video dir (Finite (3 / 10))]"
proof -
  note mode = auto_mode [OF assms(1,2)]
  have "main env argv s = (Exit0 (Success m p c fs), s1)"
    unfolding main_def Let_def using mode assms(3-6) by simp
  with scene_calls [OF assms(4)] show ?thesis by simp
qed

theorem auto_keeps_scene_result_in_band_witness:
  "path_exists calm_video ''video.mp4'' (world idle) \<and> (5::nat) \<le> 12 \<and> (12::nat) \<le> 50
   \<and> main calm_video cli idle =
       (Exit0 (Success ''scene_detection'' (Threshold (Finite (3 / 10))) 12
                 (map ((@) ''out/'') (numbered ''scene_'' 1 13))),
        \<lparr>world = numbered ''scene_'' 1 13,
         calls = [Scene_call ''video.mp4'' ''out'' (Finite (3 / 10))]\<rparr>)"
proof -
  have a: "cli = ''extract_frames.py'' # ''video.mp4'' # ''out'' # []" by (simp add: cli_def)
  have e: "path_exists calm_video ''video.mp4'' (world idle)" by code_simp
  have sc: "extract_frames_scene calm_video ''video.mp4'' ''out'' (Finite (3 / 10)) idle =
       (Inr (Success ''scene_detection'' (Threshold (Finite (3 / 10))) 12
                 (map ((@) ''out/'') (numbered ''scene_'' 1 13))),
        \<lparr>world = numbered ''scene_'' 1 13,
         calls = [Scene_call ''video.mp4'' ''out'' (Finite (3 / 10))]\<rparr>)" by code_simp
  from e auto_keeps_scene_result_in_band [OF a _ e sc] show ?thesis by simp
qed

text \<open>
  Claim C7. In automatic mode, when the scene extraction succeeds with more than 50 or
  fewer than 5 frames and the duration probe returns \<^verbatim>\<open>None\<close>, \<^verbatim>\<open>main\<close> prints the
  scene-based result; the calls made are the scene extraction and the probe, and the
  interval extractor is not called.
\<close>

theorem auto_keeps_scene_result_without_duration:
  assumes "argv = prog # video # dir # rest" and "rest = [] \<or> hd rest = ''auto''"
    and "path_exists env video (world s)"
    and "extract_frames_scene env video dir (Finite (3 / 10)) s = (Inr (Success m p c fs), s1)"
    and "50 < c \<or> c < 5"
    and "get_video_duration env video s1 = (None, s2)"
  shows "main env argv s = (Exit0 (Success m p c fs), s2)
    \<and> calls s2 = calls s @ [Scene_call video dir (Finite (3 / 10)), Duration_call video]"
proof -
  note mode = auto_mode [OF assms(1,2)]
  have "main env argv s = (Exit0 (Success m p c fs), s2)"
    unfolding main_def Let_def using mode assms(3-6) by auto
  with scene_calls [OF assms(4)] duration_calls [OF assms(6)] show ?thesis by simp
qed

theorem auto_keeps_scene_result_without_duration_witness:
  "get_video_duration no_ffprobe ''video.mp4''
       \<lparr>world = numbered ''scene_'' 1 81,
        calls = [Scene_call ''video.mp4'' ''out'' (Finite (3 / 10))]\<rparr> =
     (None, \<lparr>world = numbered ''scene_'' 1 81,
             calls = [Scene_call ''video.mp4'' ''out'' (Finite (3 / 10)), Duration_call ''video.mp4'']\<rparr>)
   \<and> main no_ffprobe cli idle =
       (Exit0 (Success ''scene_detection'' (Threshold (Finite (3 / 10))) 80
                 (map ((@) ''out/'') (numbered ''scene_'' 1 81))),
        \<lparr>world = numbered ''scene_'' 1 81,
         calls = [Scene_call ''video.mp4'' ''out'' (Finite (3 / 10)), Duration_call ''video.mp4'']\<rparr>)"
proof -
  have a: "cli = ''extract_frames.py'' # ''video.mp4'' # ''out'' # []" by (simp add: cli_def)
  have e: "path_exists no_ffprobe ''video.mp4'' (world idle)" by code_simp
  have sc: "extract_frames_scene no_ffprobe ''video.mp4'' ''out'' (Finite (3 / 10)) idle =
       (Inr (Success ''scene_detection'' (Threshold (Finite (3 / 10))) 80
                 (map ((@) ''out/'') (numbered ''scene_'' 1 81))),
        \<lparr>world = numbered ''scene_'' 1 81,
         calls = [Scene_call ''video.mp4'' ''out'' (Finite (3 / 10))]\<rparr>)" by code_simp
  have pr: "get_video_duration no_ffprobe ''video.mp4''
       \<lparr>world = numbered ''scene_'' 1 81,
        calls = [Scene_call ''video.mp4'' ''out'' (Finite (3 / 10))]\<rparr> =
     (None, \<lparr>world = numbered ''scene_'' 1 81,
             calls = [Scene_call ''video.mp4'' ''out'' (Finite (3 / 10)), Duration_call ''video.mp4'']\<rparr>)"
    by code_simp
  from pr auto_keeps_scene_result_without_duration [OF a _ e sc _ pr] show ?thesis by simp
qed

text \<open>
  Claim C10. A probed duration of 0.0 has the effect of an unknown one: in automatic
  mode, with more than 50 or fewer than 5 scene frames, whether the probe returns 0.0
  or \<^verbatim>\<open>None\<close>, \<^verbatim>\<open>main\<close> prints the scene-based result and the interval extractor is
  not called.
\<close>

theorem zero_duration_is_unknown_duration:
  assumes "argv = prog # video # dir # rest" and "rest = [] \<or> hd rest = ''auto''"
    and "path_exists env video (world s)"
    and "extract_frames_scene env video dir (Finite (3 / 10)) s = (Inr (Success m p c fs), s1)"
    and "50 < c \<or> c < 5"
    and "get_video_duration env video s1 = (duration, s2)"
    and "duration = Some (Finite 0) \<or> duration = None"
  shows "main env argv s = (Exit0 (Success m p c fs), s2)
    \<and> calls s2 = calls s @ [Scene_call video dir (Finite (3 / 10)), Duration_call video]"
proof -
  note mode = auto_mode [OF assms(1,2)]
  have "main env argv s = (Exit0 (Success m p c fs), s2)"
    unfolding main_def Let_def using mode assms(3-7) by auto
  with scene_calls [OF assms(4)] duration_calls [OF assms(6)] show ?thesis by simp
qed

theorem zero_duration_is_unknown_duration_witness:
  "get_video_duration zero_duration ''video.mp4''
       \<lparr>world = numbered ''scene_'' 1 81,
        calls = [Scene_call ''video.mp4'' ''out'' (Finite (3 / 10))]\<rparr> =
     (Some (Finite 0), \<lparr>world = numbered ''scene_'' 1 81,
             calls = [Scene_call ''video.mp4'' ''out'' (Finite (3 / 10)), Duration_call ''video.mp4'']\<rparr>)
   \<and> main zero_duration cli idle =
       (Exit0 (Success ''scene_detection'' (Threshold (Finite (3 / 10))) 80
                 (map ((@) ''out/'') (numbered ''scene_'' 1 81))),
        \<lparr>world = numbered ''scene_'' 1 81,
         calls = [Scene_call ''video.mp4'' ''out'' (Finite (3 / 10)), Duration_call ''video.mp4'']\<rparr>)"
proof -
  have a: "cli = ''extract_frames.py'' # ''video.mp4'' # ''out'' # []" by (simp add: cli_def)
  have e: "path_exists zero_duration ''video.mp4'' (world idle)" by code_simp
  have sc: "extract_frames_scene zero_duration ''video.mp4'' ''out'' (Finite (3 / 10)) idle =
       (Inr (Success ''scene_detection'' (Threshold (Finite (3 / 10))) 80
                 (map ((@) ''out/'') (numbered ''scene_'' 1 81))),
        \<lparr>world = numbered ''scene_'' 1 81,
         calls = [Scene_call ''video.mp4'' ''out'' (Finite (3 / 10))]\<rparr>)" by code_simp
  have pr: "get_video_duration zero_duration ''video.mp4''
       \<lparr>world = numbered ''scene_'' 1 81,
        calls = [Scene_call ''video.mp4'' ''out'' (Finite (3 / 10))]\<rparr> =
     (Some (Finite 0), \<lparr>world = numbered ''scene_'' 1 81,
             calls = [Scene_call ''video.mp4'' ''out'' (Finite (3 / 10)), Duration_call ''video.mp4'']\<rparr>)"
    by code_simp
  from pr zero_duration_is_unknown_duration [OF a _ e sc _ pr] show ?thesis by simp
qed

text \<open>
  Claim C3 says that every known duration leads to the interval fallback. The test
  \<^verbatim>\<open>if duration:\<close> is false for the duration 0.0: on \<open>zero_duration\<close> the scene
  extraction returns 80 frames, the probe returns 0.0, and \<^verbatim>\<open>main\<close> prints the
  scene-based result without calling the interval extractor.
\<close>

theorem zero_duration_keeps_scene_result:
  "extract_frames_scene zero_duration ''video.mp4'' ''out'' (Finite (3 / 10)) idle =
       (Inr (Success ''scene_detection'' (Threshold (Finite (3 / 10))) 80
                 (map ((@) ''out/'') (numbered ''scene_'' 1 81))),
        \<lparr>world = numbered ''scene_'' 1 81,
         calls = [Scene_call ''video.mp4'' ''out'' (Finite (3 / 10))]\<rparr>)
   \<and> get_video_duration zero_duration ''video.mp4''
       \<lparr>world = numbered ''scene_'' 1 81,
        calls = [Scene_call ''video.mp4'' ''out'' (Finite (3 / 10))]\<rparr> =
     (Some (Finite 0), \<lparr>world = numbered ''scene_'' 1 81,
             calls = [Scene_call ''video.mp4'' ''out'' (Finite (3 / 10)), Duration_call ''video.mp4'']\<rparr>)
   \<and> main zero_duration [''extract_frames.py'', ''video.mp4'', ''out'', ''auto''] idle =
       (Exit0 (Success ''scene_detection'' (Threshold (Finite (3 / 10))) 80
                 (map ((@) ''out/'') (numbered ''scene_'' 1 81))),
        \<lparr>world = numbered ''scene_'' 1 81,
         calls = [Scene_call ''video.mp4'' ''out'' (Finite (3 / 10)), Duration_call ''video.mp4'']\<rparr>)"
  by code_simp

text \<open>
  Claim C3, as the code has it. In automatic mode, when the scene extraction succeeds
  with more than 50 or fewer than 5 frames and the probe returns a finite duration
  \<open>D\<close> other than 0, a double of magnitude below \<open>2 ^ 53\<close>, the interval extractor is
  called with the interval \<open>max 10 \<lfloor>D / 30\<rfloor>\<close> and \<^verbatim>\<open>main\<close> ends with its result in
  place of the scene-based one. (The code computes \<^verbatim>\<open>int(duration / 30)\<close> with a rounded
  division; \<open>int_of_div30\<close> shows that below \<open>2 ^ 53\<close> the rounding never changes the
  interval, and \<open>round_double_examples\<close> that it does at \<open>10 ^ 18\<close>.) On \<open>busy_video\<close>,
  900 seconds with 80 scene frames, the interval is 30.
\<close>

theorem auto_falls_back_with_duration:
  assumes "argv = prog # video # dir # rest" and "rest = [] \<or> hd rest = ''auto''"
    and "path_exists env video (world s)"
    and "extract_frames_scene env video dir (Finite (3 / 10)) s = (Inr (Success m p c fs), s1)"
    and "50 < c \<or> c < 5"
    and "get_video_duration env video s1 = (Some (Finite D), s2)"
    and "D \<noteq> 0" and "is_double D" and "\<bar>D\<bar> < 2 ^ 53"
  shows "main env argv s = report (extract_frames_interval env video dir (max 10 \<lfloor>D / 30\<rfloor>) s2)
    \<and> calls (snd (main env argv s)) =
        calls s @ [Scene_call video dir (Finite (3 / 10)), Duration_call video,
                   Interval_call video dir (max 10 \<lfloor>D / 30\<rfloor>)]"
proof -
  note mode = auto_mode [OF assms(1,2)]
  let ?r = "extract_frames_interval env video dir (max 10 \<lfloor>D / 30\<rfloor>) s2"
  from int_of_div30 [OF assms(8,9)] obtain q
    where q: "int_of_float (float_div (Finite D) 30) = Inr q" "max 10 q = max 10 \<lfloor>D / 30\<rfloor>"
    by blast
  have m: "main env argv s = report ?r"
    unfolding main_def Let_def using mode assms(3-7) q by auto
  obtain r s3 where r: "?r = (r, s3)" by (cases ?r)
  then have "snd (report ?r) = s3" by (cases r) simp_all
  with m r interval_calls [OF r] scene_calls [OF assms(4)] duration_calls [OF assms(6)]
  show ?thesis by simp
qed

theorem auto_falls_back_with_duration_witness:
  "is_double 900 \<and> get_video_duration busy_video ''video.mp4''
       \<lparr>world = numbered ''scene_'' 1 81,
        calls = [Scene_call ''video.mp4'' ''out'' (Finite (3 / 10))]\<rparr> =
     (Some (Finite 900), \<lparr>world = numbered ''scene_'' 1 81,
             calls = [Scene_call ''video.mp4'' ''out'' (Finite (3 / 10)), Duration_call ''video.mp4'']\<rparr>)
   \<and> main busy_video cli idle =
       (Exit0 (Success ''interval'' (Interval 30) 30 (map ((@) ''out/'') (numbered ''frame_'' 1 31))),
        \<lparr>world = numbered ''scene_'' 1 81 @ numbered ''frame_'' 1 31,
         calls = [Scene_call ''video.mp4'' ''out'' (Finite (3 / 10)), Duration_call ''video.mp4'',
                  Interval_call ''video.mp4'' ''out'' 30]\<rparr>)"
proof -
  have a: "cli = ''extract_frames.py'' # ''video.mp4'' # ''out'' # []" by (simp add: cli_def)
  have e: "path_exists busy_video ''video.mp4'' (world idle)" by code_simp
  have sc: "extract_frames_scene busy_video ''video.mp4'' ''out'' (Finite (3 / 10)) idle =
       (Inr (Success ''scene_detection'' (Threshold (Finite (3 / 10))) 80
                 (map ((@) ''out/'') (numbered ''scene_'' 1 81))),
        \<lparr>world = numbered ''scene_'' 1 81,
         calls = [Scene_call ''video.mp4'' ''out'' (Finite (3 / 10))]\<rparr>)" by code_simp
  have pr: "get_video_duration busy_video ''video.mp4''
       \<lparr>world = numbered ''scene_'' 1 81,
        calls = [Scene_call ''video.mp4'' ''out'' (Finite (3 / 10))]\<rparr> =
     (Some (Finite 900), \<lparr>world = numbered ''scene_'' 1 81,
             calls = [Scene_call ''video.mp4'' ''out'' (Finite (3 / 10)), Duration_call ''video.mp4'']\<rparr>)"
    by code_simp
  have iv: "report (extract_frames_interval busy_video ''video.mp4'' ''out'' 30
       \<lparr>world = numbered ''scene_'' 1 81,
        calls = [Scene_call ''video.mp4'' ''out'' (Finite (3 / 10)), Duration_call ''video.mp4'']\<rparr>) =
       (Exit0 (Success ''interval'' (Interval 30) 30 (map ((@) ''out/'') (numbered ''frame_'' 1 31))),
        \<lparr>world = numbered ''scene_'' 1 81 @ numbered ''frame_'' 1 31,
         calls = [Scene_call ''video.mp4'' ''out'' (Finite (3 / 10)), Duration_call ''video.mp4'',
                  Interval_call ''video.mp4'' ''out'' 30]\<rparr>)"
    by code_simp
  have nz: "(900::real) \<noteq> 0" and b: "\<bar>900::real\<bar> < 2 ^ 53" by simp_all
  have dbl: "is_double 900" by code_simp
  from dbl pr iv auto_falls_back_with_duration [OF a _ e sc _ pr nz dbl b] show ?thesis by simp
qed

text \<open>
  Claim C1 says that a failure of the scene extraction is the final result, with no
  probe and no interval extraction. \<^verbatim>\<open>main\<close> reads the frame count of the failure
  result with the default 0, which is below 5, so it goes on as for too few frames. On
  \<open>no_vsync\<close> the scene extraction fails, the probe returns 900.0, the interval
  extractor is called with the interval 30, and \<^verbatim>\<open>main\<close> prints its success.
\<close>

theorem scene_failure_falls_back:
  "extract_frames_scene no_vsync ''video.mp4'' ''out'' (Finite (3 / 10)) idle =
       (Inr (Failure ''Frame extraction failed'' (''details'', ''Unrecognized option vsync'')),
        \<lparr>world = [], calls = [Scene_call ''video.mp4'' ''out'' (Finite (3 / 10))]\<rparr>)
   \<and> main no_vsync [''extract_frames.py'', ''video.mp4'', ''out'', ''auto''] idle =
       (Exit0 (Success ''interval'' (Interval 30) 30 (map ((@) ''out/'') (numbered ''frame_'' 1 31))),
        \<lparr>world = numbered ''frame_'' 1 31,
         calls = [Scene_call ''video.mp4'' ''out'' (Finite (3 / 10)), Duration_call ''video.mp4'',
                  Interval_call ''video.mp4'' ''out'' 30]\<rparr>)"
  by code_simp

text \<open>
  Claim C1, as the code has it. In automatic mode, when the scene extraction returns a
  failure result, the duration probe is called. If it returns \<^verbatim>\<open>None\<close> or 0.0, the
  failure is the final result, printed on standard error with exit status 1, and the
  interval extractor is not called. If it returns a finite duration \<open>D\<close> other than 0,
  a double of magnitude below \<open>2 ^ 53\<close>, \<^verbatim>\<open>main\<close> ends with the result of the interval
  extractor for the interval \<open>max 10 \<lfloor>D / 30\<rfloor>\<close>.
\<close>

theorem auto_scene_failure_consults_probe:
  assumes "argv = prog # video # dir # rest" and "rest = [] \<or> hd rest = ''auto''"
    and "path_exists env video (world s)"
    and "extract_frames_scene env video dir (Finite (3 / 10)) s = (Inr (Failure e kv), s1)"
    and "get_video_duration env video s1 = (duration, s2)"
  shows "calls s2 = calls s @ [Scene_call video dir (Finite (3 / 10)), Duration_call video]
    \<and> (duration = None \<or> duration = Some (Finite 0) \<longrightarrow>
          main env argv s = (Exit1 (Failure e kv), s2))
    \<and> (\<forall>D. duration = Some (Finite D) \<and> D \<noteq> 0 \<and> is_double D \<and> \<bar>D\<bar> < 2 ^ 53 \<longrightarrow>
          main env argv s = report (extract_frames_interval env video dir (max 10 \<lfloor>D / 30\<rfloor>) s2))"
proof -
  note mode = auto_mode [OF assms(1,2)]
  have a: "duration = None \<or> duration = Some (Finite 0) \<longrightarrow>
          main env argv s = (Exit1 (Failure e kv), s2)"
    unfolding main_def Let_def using mode assms(3-5) by auto
  have b: "\<forall>D. duration = Some (Finite D) \<and> D \<noteq> 0 \<and> is_double D \<and> \<bar>D\<bar> < 2 ^ 53 \<longrightarrow>
          main env argv s = report (extract_frames_interval env video dir (max 10 \<lfloor>D / 30\<rfloor>) s2)"
  proof (intro allI impI)
    fix D
    assume D: "duration = Some (Finite D) \<and> D \<noteq> 0 \<and> is_double D \<and> \<bar>D\<bar> < 2 ^ 53"
    then obtain q
      where q: "int_of_float (float_div (Finite D) 30) = Inr q" "max 10 q = max 10 \<lfloor>D / 30\<rfloor>"
      using int_of_div30 [of D] by blast
    show "main env argv s = report (extract_frames_interval env video dir (max 10 \<lfloor>D / 30\<rfloor>) s2)"
      unfolding main_def Let_def using mode assms(3-5) D q by auto
  qed
  from a b scene_calls [OF assms(4)] duration_calls [OF assms(5)] show ?thesis by simp
qed

theorem auto_scene_failure_consults_probe_witness:
  "main no_tools cli idle =
       (Exit1 (Failure ''Frame extraction failed'' (''details'', ''Unrecognized option vsync'')),
        \<lparr>world = [], calls = [Scene_call ''video.mp4'' ''out'' (Finite (3 / 10)), Duration_call ''video.mp4'']\<rparr>)
   \<and> main no_vsync cli idle =
       (Exit0 (Success ''interval'' (Interval 30) 30 (map ((@) ''out/'') (numbered ''frame_'' 1 31))),
        \<lparr>world = numbered ''frame_'' 1 31,
         calls = [Scene_call ''video.mp4'' ''out'' (Finite (3 / 10)), Duration_call ''video.mp4'',
                  Interval_call ''video.mp4'' ''out'' 30]\<rparr>)"
proof -
  have a: "cli = ''extract_frames.py'' # ''video.mp4'' # ''out'' # []" by (simp add: cli_def)
  let ?s1 = "\<lparr>world = [], calls = [Scene_call ''video.mp4'' ''out'' (Finite (3 / 10))]\<rparr> :: string list state"
  let ?s2 = "\<lparr>world = [], calls = [Scene_call ''video.mp4'' ''out'' (Finite (3 / 10)),
                Duration_call ''video.mp4'']\<rparr> :: string list state"
  let ?f = "Failure ''Frame extraction failed'' (''details'', ''Unrecognized option vsync'')"
  have e1: "path_exists no_tools ''video.mp4'' (world idle)" by code_simp
  have sc1: "extract_frames_scene no_tools ''video.mp4'' ''out'' (Finite (3 / 10)) idle = (Inr ?f, ?s1)"
    by code_simp
  have pr1: "get_video_duration no_tools ''video.mp4'' ?s1 = (None, ?s2)" by code_simp
  have 1: "main no_tools cli idle = (Exit1 ?f, ?s2)"
    using auto_scene_failure_consults_probe [OF a _ e1 sc1 pr1] by simp
  have e2: "path_exists no_vsync ''video.mp4'' (world idle)" by code_simp
  have sc2: "extract_frames_scene no_vsync ''video.mp4'' ''out'' (Finite (3 / 10)) idle = (Inr ?f, ?s1)"
    by code_simp
  have pr2: "get_video_duration no_vsync ''video.mp4'' ?s1 = (Some (Finite 900), ?s2)" by code_simp
  have dbl: "is_double 900" by code_simp
  have iv: "report (extract_frames_interval no_vsync ''video.mp4'' ''out'' 30 ?s2) =
       (Exit0 (Success ''interval'' (Interval 30) 30 (map ((@) ''out/'') (numbered ''frame_'' 1 31))),
        \<lparr>world = numbered ''frame_'' 1 31,
         calls = [Scene_call ''video.mp4'' ''out'' (Finite (3 / 10)), Duration_call ''video.mp4'',
                  Interval_call ''video.mp4'' ''out'' 30]\<rparr>)"
    by code_simp
  have 2: "main no_vsync cli idle =
       (Exit0 (Success ''interval'' (Interval 30) 30 (map ((@) ''out/'') (numbered ''frame_'' 1 31))),
        \<lparr>world = numbered ''frame_'' 1 31,
         calls = [Scene_call ''video.mp4'' ''out'' (Finite (3 / 10)), Duration_call ''video.mp4'',
                  Interval_call ''video.mp4'' ''out'' 30]\<rparr>)"
    using iv dbl auto_scene_failure_consults_probe [OF a _ e2 sc2 pr2] by simp
  from 1 2 show ?thesis by simp
qed

subsection \<open>Explicit interval\<close>

text \<open>
  Claim C5 says that a mode string that is no positive integer is rejected without
  calling the interval extractor. \<^verbatim>\<open>main\<close> only tests that \<^verbatim>\<open>int(mode)\<close> does not
  raise: the strings \<^verbatim>\<open>0\<close> and \<^verbatim>\<open>-5\<close> are integers, and the interval extractor is
  called with them. On \<open>strict_rate\<close> it is \<^verbatim>\<open>ffmpeg\<close> that fails then, and the error
  printed is the one of a failed extraction.
\<close>

theorem non_positive_interval_is_attempted:
  "py_int strict_rate ''0'' = Some 0
   \<and> main strict_rate [''extract_frames.py'', ''video.mp4'', ''out'', ''0''] idle =
       (Exit1 (Failure ''Frame extraction failed''
                 (''details'', ''Unable to parse option value as video rate'')),
        \<lparr>world = [], calls = [Interval_call ''video.mp4'' ''out'' 0]\<rparr>)
   \<and> py_int strict_rate ''-5'' = Some (- 5)
   \<and> main strict_rate [''extract_frames.py'', ''video.mp4'', ''out'', ''-5''] idle =
       (Exit1 (Failure ''Frame extraction failed''
                 (''details'', ''Unable to parse option value as video rate'')),
        \<lparr>world = [], calls = [Interval_call ''video.mp4'' ''out'' (- 5)]\<rparr>)"
  by code_simp

text \<open>
  Claim C5, as the code has it. With a mode argument other than \<^verbatim>\<open>auto\<close> for which
  \<^verbatim>\<open>int\<close> raises \<^verbatim>\<open>ValueError\<close>, \<^verbatim>\<open>main\<close> prints the error "Invalid interval" and
  exits with status 1 in the state it started in: the interval extractor is not
  called, nor anything else.
\<close>

theorem interval_mode_rejects_non_numeric:
  assumes "argv = prog # video # dir # mode # rest" and "mode \<noteq> ''auto''"
    and "path_exists env video (world s)"
    and "py_int env mode = None"
  shows "main env argv s = (Exit1 invalid_interval, s)"
  unfolding main_def Let_def using assms by simp

theorem interval_mode_rejects_non_numeric_witness:
  "py_int strict_rate ''ten'' = None
   \<and> main strict_rate [''extract_frames.py'', ''video.mp4'', ''out'', ''ten''] idle =
       (Exit1 (Failure ''Invalid interval''
                 (''details'', ''Interval must be a number or '' @ [CHR 0x22] @ ''auto'' @ [CHR 0x22])),
        idle)"
proof -
  have m: "''ten'' \<noteq> ''auto''" by simp
  have e: "path_exists strict_rate ''video.mp4'' (world idle)" by code_simp
  have n: "py_int strict_rate ''ten'' = None" by code_simp
  from n interval_mode_rejects_non_numeric [OF refl m e n, of "''extract_frames.py''" "''out''" "[]"]
  show ?thesis by (simp add: invalid_interval_def)
qed

end
